theory Spec2Isabelle
  imports Complex_Main
begin

section \<open>Data model\<close>

text \<open>
  The storefront keeps two per-user collections, the cart (\<^verbatim>\<open>contexts/CartContext.tsx\<close>)
  and the wishlist (\<^verbatim>\<open>contexts/WishlistContext.tsx\<close>). Each provider owns the React
  state \<^verbatim>\<open>items\<close> (the canonical snapshot), one \<^verbatim>\<open>localStorage\<close> slot and talks to the
  REST backend while the user is authenticated.

  Of \<^verbatim>\<open>Product\<close> (\<^verbatim>\<open>types/index.ts\<close>) only the fields the providers read are kept:
  \<^verbatim>\<open>id\<close> (written \<open>id'\<close>, since \<open>id\<close> is the identity function of HOL), \<^verbatim>\<open>name\<close> and
  \<^verbatim>\<open>price\<close>. A JavaScript \<^verbatim>\<open>number\<close> is an integer where it counts pieces and a real where
  it is a price; arithmetic is exact.
\<close>

type_synonym product_id = string

record product =
  id' :: product_id
  name :: string
  price :: real

record cart_item =
  product :: product
  quantity :: int

text \<open>
  What \<^verbatim>\<open>items\<close> can hold at run time. The providers declare an array of entries, but
  \<^verbatim>\<open>setItems(JSON.parse(saved))\<close> stores whatever the slot parses to: \<open>JNull\<close> is \<^verbatim>\<open>null\<close>,
  \<open>JOther\<close> any other value that is not an array (\<^verbatim>\<open>{}\<close>, \<^verbatim>\<open>5\<close>, \<^verbatim>\<open>true\<close>), \<open>JArray xs\<close> an
  array. The elements of an array are taken to be entries. A non-empty string, or an
  object with a positive \<^verbatim>\<open>length\<close>, has no array methods either and goes through the
  handlers as \<open>JNull\<close> does: the \<^verbatim>\<open>TypeError\<close> comes one step later, at \<^verbatim>\<open>map\<close>.
\<close>

datatype 'e json = JNull | JOther | JArray "'e list"

text \<open>
  The text held by a \<^verbatim>\<open>localStorage\<close> slot: the empty string, a text that
  \<^verbatim>\<open>JSON.parse\<close> rejects, or \<^verbatim>\<open>JSON.stringify v\<close>. A slot is \<open>None\<close> when the key is
  absent (\<^verbatim>\<open>getItem\<close> returns \<^verbatim>\<open>null\<close>).
\<close>

datatype 'a stored = Blank | Garbled | Json 'a

datatype exn = SyntaxError | TypeError | HttpError "nat option"

text \<open>
  \<open>HttpError st\<close> is a rejected request; \<open>st\<close> is \<^verbatim>\<open>error.response?.status\<close>, \<open>None\<close> when
  there was no response at all.

  The state of one provider: the two \<^verbatim>\<open>useState\<close> cells, the storage slot, the backend
  as the client sees it (\<open>remote\<close>, of any type), and \<open>dirty\<close>: \<^verbatim>\<open>items\<close> has been set to a
  new value since the persist effect last ran, so the effect is due at the next render.
\<close>

record ('e, 'r) provider =
  items :: "'e json"
  loading :: bool
  storage :: "'e json stored option"
  dirty :: bool
  remote :: 'r

section \<open>Handlers as state transformers that may throw\<close>

type_synonym ('e, 'r, 'a) prog = "('e, 'r) provider \<Rightarrow> (exn + 'a) \<times> ('e, 'r) provider"

definition unit_x :: "'a \<Rightarrow> ('e, 'r, 'a) prog" where
  "unit_x v = (\<lambda>s. (Inr v, s))"

definition skip :: "('e, 'r, unit) prog" where
  "skip = unit_x ()"

definition throw :: "exn \<Rightarrow> ('e, 'r, 'a) prog" where
  "throw e = (\<lambda>s. (Inl e, s))"

definition bind_x :: "('e, 'r, 'a) prog \<Rightarrow> ('a \<Rightarrow> ('e, 'r, 'b) prog) \<Rightarrow> ('e, 'r, 'b) prog" where
  "bind_x m f = (\<lambda>s. case m s of (Inl e, s') \<Rightarrow> (Inl e, s') | (Inr v, s') \<Rightarrow> f v s')"

definition seq_x :: "('e, 'r, unit) prog \<Rightarrow> ('e, 'r, 'b) prog \<Rightarrow> ('e, 'r, 'b) prog" where
  "seq_x m n = bind_x m (\<lambda>_. n)"

text \<open>\<^verbatim>\<open>try { m } catch (e) { h(e) }\<close> and \<^verbatim>\<open>try { m } finally { fin }\<close>.\<close>

definition try_catch :: "('e, 'r, 'a) prog \<Rightarrow> (exn \<Rightarrow> ('e, 'r, 'a) prog) \<Rightarrow> ('e, 'r, 'a) prog" where
  "try_catch m h = (\<lambda>s. case m s of (Inl e, s') \<Rightarrow> h e s' | (Inr v, s') \<Rightarrow> (Inr v, s'))"

definition try_finally :: "('e, 'r, 'a) prog \<Rightarrow> ('e, 'r, unit) prog \<Rightarrow> ('e, 'r, 'a) prog" where
  "try_finally m fin =
     (\<lambda>s. case m s of (res, s') \<Rightarrow>
        (case fin s' of (Inl e, s'') \<Rightarrow> (Inl e, s'') | (Inr _, s'') \<Rightarrow> (res, s'')))"

subsection \<open>React state\<close>

definition get_items :: "('e, 'r, 'e json) prog" where
  "get_items = (\<lambda>s. (Inr (items s), s))"

definition setLoading :: "bool \<Rightarrow> ('e, 'r, unit) prog" where
  "setLoading b = (\<lambda>s. (Inr (), s\<lparr>loading := b\<rparr>))"

text \<open>
  An array method (\<^verbatim>\<open>find\<close>, \<^verbatim>\<open>some\<close>, \<^verbatim>\<open>map\<close>, \<^verbatim>\<open>filter\<close>, \<^verbatim>\<open>reduce\<close>, the spread) called on a
  value: on anything but an array it raises \<^verbatim>\<open>TypeError\<close>.
\<close>

definition as_array :: "'e json \<Rightarrow> ('e, 'r, 'e list) prog" where
  "as_array v = (case v of JArray xs \<Rightarrow> unit_x xs | _ \<Rightarrow> throw TypeError)"

text \<open>
  \<^verbatim>\<open>v.length > 0\<close>: reading a property of \<^verbatim>\<open>null\<close> raises \<^verbatim>\<open>TypeError\<close>; a value without a
  length gives \<^verbatim>\<open>undefined > 0\<close>, which is false.
\<close>

definition length_positive :: "'e json \<Rightarrow> ('e, 'r, bool) prog" where
  "length_positive v =
     (case v of JArray xs \<Rightarrow> unit_x (length xs > 0) | JOther \<Rightarrow> unit_x False | JNull \<Rightarrow> throw TypeError)"

text \<open>\<^verbatim>\<open>setItems(v)\<close> with a fresh value: a render, and with it the persist effect, is due.\<close>

definition setItems :: "'e json \<Rightarrow> ('e, 'r, unit) prog" where
  "setItems v = (\<lambda>s. (Inr (), s\<lparr>items := v, dirty := True\<rparr>))"

text \<open>
  \<^verbatim>\<open>setItems((prevItems) => ...)\<close>. Every updater of the source begins with an array method
  on \<^verbatim>\<open>prevItems\<close>, so it raises \<^verbatim>\<open>TypeError\<close> when the snapshot is not an array; React calls
  it while rendering, outside every \<^verbatim>\<open>try\<close> of the handlers (none of them calls \<^verbatim>\<open>setItems\<close>
  with an updater inside a \<^verbatim>\<open>try\<close> block), and the state stays as it was. On an array the
  updater answers \<open>None\<close> where the source returns \<^verbatim>\<open>prevItems\<close> itself: React sees the same
  reference and schedules nothing.
\<close>

definition setItemsBy :: "('e list \<Rightarrow> 'e list option) \<Rightarrow> ('e, 'r, unit) prog" where
  "setItemsBy f =
     bind_x get_items (\<lambda>prevItems.
       bind_x (as_array prevItems) (\<lambda>entries.
         case f entries of None \<Rightarrow> skip | Some xs \<Rightarrow> setItems (JArray xs)))"

subsection \<open>localStorage and JSON\<close>

definition localStorage_getItem :: "('e, 'r, 'e json stored option) prog" where
  "localStorage_getItem = (\<lambda>s. (Inr (storage s), s))"

definition localStorage_setItem :: "'e json stored \<Rightarrow> ('e, 'r, unit) prog" where
  "localStorage_setItem v = (\<lambda>s. (Inr (), s\<lparr>storage := Some v\<rparr>))"

definition localStorage_removeItem :: "('e, 'r, unit) prog" where
  "localStorage_removeItem = (\<lambda>s. (Inr (), s\<lparr>storage := None\<rparr>))"

definition JSON_stringify :: "'e json \<Rightarrow> 'e json stored" where
  "JSON_stringify v = Json v"

text \<open>
  \<^verbatim>\<open>if (saved)\<close>: \<^verbatim>\<open>null\<close> and the empty string are falsy. \<^verbatim>\<open>JSON.parse\<close> returns whatever
  value the text serializes, array or not, and raises \<^verbatim>\<open>SyntaxError\<close> on a text that is no
  JSON. Every \<^verbatim>\<open>JSON.parse(saved)\<close> of the source is behind the test; on an absent key it
  would give \<^verbatim>\<open>null\<close>.
\<close>

definition truthy :: "'a stored option \<Rightarrow> bool" where
  "truthy saved = (case saved of None \<Rightarrow> False | Some Blank \<Rightarrow> False | Some _ \<Rightarrow> True)"

definition JSON_parse :: "'e json stored option \<Rightarrow> ('e, 'r, 'e json) prog" where
  "JSON_parse saved =
     (case saved of
        Some (Json v) \<Rightarrow> unit_x v
      | Some _ \<Rightarrow> throw SyntaxError
      | None \<Rightarrow> unit_x JNull)"

subsection \<open>Rendering and requests\<close>

text \<open>
  A render commits the state; the persist effect \<open>eff\<close> of the provider runs when
  \<^verbatim>\<open>items\<close> changed. Awaiting a request yields to React first, then the backend answers:
  \<open>call\<close> maps the backend's state to the outcome of the request and the state after it.
\<close>

definition commit :: "('e, 'r, unit) prog \<Rightarrow> ('e, 'r) provider \<Rightarrow> ('e, 'r) provider" where
  "commit eff s = (if dirty s then snd (eff (s\<lparr>dirty := False\<rparr>)) else s)"

definition request :: "('r \<Rightarrow> (exn + 'a) \<times> 'r) \<Rightarrow> ('e, 'r, 'a) prog" where
  "request call = (\<lambda>s. case call (remote s) of (res, r') \<Rightarrow> (res, s\<lparr>remote := r'\<rparr>))"

definition await_x :: "('e, 'r, unit) prog \<Rightarrow> ('r \<Rightarrow> (exn + 'a) \<times> 'r) \<Rightarrow> ('e, 'r, 'a) prog" where
  "await_x eff call = (\<lambda>s. request call (commit eff s))"

text \<open>A handler run to completion: its outcome, and the state once React has rendered.\<close>

definition run :: "('e, 'r, unit) prog \<Rightarrow> ('e, 'r, 'a) prog \<Rightarrow> ('e, 'r, 'a) prog" where
  "run eff m = (\<lambda>s. case m s of (res, s') \<Rightarrow> (res, commit eff s'))"

section \<open>The cart provider\<close>

text \<open>
  The requests of \<^verbatim>\<open>CartContext.tsx\<close>. The backend is not part of the client: every
  handler takes it as a parameter, one function per endpoint, from the backend's state to
  the outcome (\<open>Inl\<close> a rejected promise) and the state after the request.
\<close>

record 'r cart_api =
  get_cart :: "'r \<Rightarrow> (exn + cart_item list) \<times> 'r"
  post_cart_items :: "product_id \<Rightarrow> int \<Rightarrow> 'r \<Rightarrow> (exn + unit) \<times> 'r"
  put_cart_items :: "product_id \<Rightarrow> int \<Rightarrow> 'r \<Rightarrow> (exn + unit) \<times> 'r"
  delete_cart_items :: "product_id \<Rightarrow> 'r \<Rightarrow> (exn + unit) \<times> 'r"
  delete_cart :: "'r \<Rightarrow> (exn + unit) \<times> 'r"
  post_cart_sync :: "(product_id \<times> int) list \<Rightarrow> 'r \<Rightarrow> (exn + unit) \<times> 'r"

text \<open>
  \<^verbatim>\<open>useEffect(() => { localStorage.setItem(CART_STORAGE_KEY, JSON.stringify(items)); }, [items])\<close>
\<close>

definition cart_effect :: "(cart_item, 'r, unit) prog" where
  "cart_effect = bind_x get_items (\<lambda>items_now. localStorage_setItem (JSON_stringify items_now))"

definition cart_await :: "('r \<Rightarrow> (exn + 'a) \<times> 'r) \<Rightarrow> (cart_item, 'r, 'a) prog" where
  "cart_await call = await_x cart_effect call"

text \<open>\<^verbatim>\<open>response.data.items.map((item) => ({ product: item.product, quantity: item.quantity }))\<close>\<close>

definition cart_rows_of :: "cart_item list \<Rightarrow> cart_item list" where
  "cart_rows_of rows = map (\<lambda>item. \<lparr>product = product item, quantity = quantity item\<rparr>) rows"

text \<open>\<^verbatim>\<open>localItems.map((item) => ({ product_id: item.product.id, quantity: item.quantity }))\<close>\<close>

definition sync_body :: "cart_item list \<Rightarrow> (product_id \<times> int) list" where
  "sync_body localItems = map (\<lambda>item. (id' (product item), quantity item)) localItems"

definition loadCart :: "bool \<Rightarrow> 'r cart_api \<Rightarrow> (cart_item, 'r, unit) prog" where
  "loadCart isAuthenticated api =
     (if isAuthenticated then
        try_finally
          (try_catch
             (seq_x (setLoading True)
             (bind_x (cart_await (get_cart api)) (\<lambda>response.
                let cartItems = cart_rows_of response in
                seq_x (setItems (JArray cartItems))
               (seq_x (localStorage_setItem (JSON_stringify (JArray cartItems)))
               (if length cartItems = 0 then
                  bind_x localStorage_getItem (\<lambda>saved.
                    if truthy saved then
                      try_catch
                        (bind_x (JSON_parse saved) (\<lambda>localItems.
                         bind_x (length_positive localItems) (\<lambda>nonempty.
                           if nonempty then
                             bind_x (as_array localItems) (\<lambda>entries.
                             seq_x (cart_await (post_cart_sync api (sync_body entries)))
                            (bind_x (cart_await (get_cart api)) (\<lambda>syncResponse.
                               let syncedItems = cart_rows_of syncResponse in
                               seq_x (setItems (JArray syncedItems))
                                 (localStorage_setItem (JSON_stringify (JArray syncedItems))))))
                           else skip)))
                        (\<lambda>syncError. skip)
                    else skip)
                else skip)))))
             (\<lambda>error.
                try_catch
                  (bind_x localStorage_getItem (\<lambda>saved.
                     if truthy saved then bind_x (JSON_parse saved) setItems else skip))
                  (\<lambda>_. setItems (JArray []))))
          (setLoading False)
      else
        try_finally
          (try_catch
             (bind_x localStorage_getItem (\<lambda>saved.
                if truthy saved then bind_x (JSON_parse saved) setItems else setItems (JArray [])))
             (\<lambda>_. setItems (JArray [])))
          (setLoading False))"

text \<open>The updaters handed to \<^verbatim>\<open>setItems\<close>, on an array; each builds a new array.\<close>

definition add_updater :: "product \<Rightarrow> int \<Rightarrow> cart_item list \<Rightarrow> cart_item list option" where
  "add_updater p q prevItems =
     (case find (\<lambda>item. id' (product item) = id' p) prevItems of
        Some existingItem \<Rightarrow>
          Some (map (\<lambda>item. if id' (product item) = id' p
                              then item\<lparr>quantity := quantity item + q\<rparr> else item) prevItems)
      | None \<Rightarrow> Some (prevItems @ [\<lparr>product = p, quantity = q\<rparr>]))"

definition remove_updater :: "product_id \<Rightarrow> cart_item list \<Rightarrow> cart_item list option" where
  "remove_updater productId prevItems =
     Some (filter (\<lambda>item. id' (product item) \<noteq> productId) prevItems)"

definition quantity_updater :: "product_id \<Rightarrow> int \<Rightarrow> cart_item list \<Rightarrow> cart_item list option" where
  "quantity_updater productId q prevItems =
     Some (map (\<lambda>item. if id' (product item) = productId
                         then item\<lparr>quantity := q\<rparr> else item) prevItems)"

definition addToCart :: "bool \<Rightarrow> 'r cart_api \<Rightarrow> product \<Rightarrow> int \<Rightarrow> (cart_item, 'r, unit) prog" where
  "addToCart isAuthenticated api p q =
     (if isAuthenticated then
        try_catch
          (bind_x get_items (\<lambda>items_now.
           bind_x (as_array items_now) (\<lambda>entries.
             seq_x
               (case find (\<lambda>item. id' (product item) = id' p) entries of
                  Some existingItem \<Rightarrow>
                    cart_await (put_cart_items api (id' p) (quantity existingItem + q))
                | None \<Rightarrow> cart_await (post_cart_items api (id' p) q))
               (loadCart isAuthenticated api))))
          (\<lambda>error. setItemsBy (add_updater p q))
      else setItemsBy (add_updater p q))"

definition removeFromCart :: "bool \<Rightarrow> 'r cart_api \<Rightarrow> product_id \<Rightarrow> (cart_item, 'r, unit) prog" where
  "removeFromCart isAuthenticated api productId =
     (if isAuthenticated then
        try_catch
          (seq_x (cart_await (delete_cart_items api productId)) (loadCart isAuthenticated api))
          (\<lambda>error. setItemsBy (remove_updater productId))
      else setItemsBy (remove_updater productId))"

definition updateQuantity ::
  "bool \<Rightarrow> 'r cart_api \<Rightarrow> product_id \<Rightarrow> int \<Rightarrow> (cart_item, 'r, unit) prog" where
  "updateQuantity isAuthenticated api productId q =
     (if q \<le> 0 then removeFromCart isAuthenticated api productId
      else if isAuthenticated then
        try_catch
          (seq_x (cart_await (put_cart_items api productId q)) (loadCart isAuthenticated api))
          (\<lambda>error. setItemsBy (quantity_updater productId q))
      else setItemsBy (quantity_updater productId q))"

definition clearCart :: "bool \<Rightarrow> 'r cart_api \<Rightarrow> (cart_item, 'r, unit) prog" where
  "clearCart isAuthenticated api =
     (if isAuthenticated then
        try_catch
          (seq_x (cart_await (delete_cart api))
          (seq_x (setItems (JArray [])) localStorage_removeItem))
          (\<lambda>error. setItems (JArray []))
      else seq_x (setItems (JArray [])) localStorage_removeItem)"

definition getTotalItems :: "(cart_item, 'r, int) prog" where
  "getTotalItems =
     bind_x get_items (\<lambda>items_now.
       bind_x (as_array items_now) (\<lambda>entries.
         unit_x (foldl (\<lambda>total item. total + quantity item) 0 entries)))"

definition getTotalPrice :: "(cart_item, 'r, real) prog" where
  "getTotalPrice =
     bind_x get_items (\<lambda>items_now.
       bind_x (as_array items_now) (\<lambda>entries.
         unit_x (foldl (\<lambda>total item. total + price (product item) * of_int (quantity item)) 0
                   entries)))"

definition isInCart :: "product_id \<Rightarrow> (cart_item, 'r, bool) prog" where
  "isInCart productId =
     bind_x get_items (\<lambda>items_now.
       bind_x (as_array items_now) (\<lambda>entries.
         unit_x (list_ex (\<lambda>item. id' (product item) = productId) entries)))"

definition syncCart :: "bool \<Rightarrow> 'r cart_api \<Rightarrow> (cart_item, 'r, unit) prog" where
  "syncCart isAuthenticated api =
     (if \<not> isAuthenticated then skip
      else
        try_catch
          (bind_x localStorage_getItem (\<lambda>saved.
             if truthy saved then
               bind_x (JSON_parse saved) (\<lambda>localItems.
               bind_x (length_positive localItems) (\<lambda>nonempty.
                 if nonempty then
                   bind_x (as_array localItems) (\<lambda>entries.
                     seq_x (cart_await (post_cart_sync api (sync_body entries)))
                       (loadCart isAuthenticated api))
                 else skip))
             else skip))
          (\<lambda>error. skip))"

text \<open>A handler of the cart run to completion.\<close>

definition cart_run :: "(cart_item, 'r, 'a) prog \<Rightarrow> (cart_item, 'r, 'a) prog" where
  "cart_run m = run cart_effect m"

section \<open>The wishlist provider\<close>

text \<open>
  The requests of \<^verbatim>\<open>WishlistContext.tsx\<close>. A row of \<^verbatim>\<open>GET /wishlist\<close> carries the product
  under \<^verbatim>\<open>item.product\<close>.
\<close>

datatype wishlist_row = WishlistRow (row_product: product)

record 'r wishlist_api =
  get_wishlist :: "'r \<Rightarrow> (exn + wishlist_row list) \<times> 'r"
  post_wishlist_items :: "product_id \<Rightarrow> 'r \<Rightarrow> (exn + unit) \<times> 'r"
  delete_wishlist_items :: "product_id \<Rightarrow> 'r \<Rightarrow> (exn + unit) \<times> 'r"
  delete_wishlist :: "'r \<Rightarrow> (exn + unit) \<times> 'r"
  post_wishlist_sync :: "product_id list \<Rightarrow> 'r \<Rightarrow> (exn + unit) \<times> 'r"

text \<open>
  \<^verbatim>\<open>useEffect(() => { if (!isAuthenticated) localStorage.setItem(WISHLIST_STORAGE_KEY, JSON.stringify(items)); }, [items, isAuthenticated])\<close>
\<close>

definition wishlist_effect :: "bool \<Rightarrow> (product, 'r, unit) prog" where
  "wishlist_effect isAuthenticated =
     (if \<not> isAuthenticated
      then bind_x get_items (\<lambda>items_now. localStorage_setItem (JSON_stringify items_now))
      else skip)"

definition wishlist_await :: "bool \<Rightarrow> ('r \<Rightarrow> (exn + 'a) \<times> 'r) \<Rightarrow> (product, 'r, 'a) prog" where
  "wishlist_await isAuthenticated call = await_x (wishlist_effect isAuthenticated) call"

definition loadWishlist :: "bool \<Rightarrow> 'r wishlist_api \<Rightarrow> (product, 'r, unit) prog" where
  "loadWishlist isAuthenticated api =
     (if isAuthenticated then
        try_finally
          (try_catch
             (seq_x (setLoading True)
             (bind_x (wishlist_await isAuthenticated (get_wishlist api)) (\<lambda>response.
                let wishlistProducts = map row_product response in
                seq_x (setItems (JArray wishlistProducts))
               (seq_x (localStorage_setItem (JSON_stringify (JArray wishlistProducts)))
               (if length wishlistProducts = 0 then
                  bind_x localStorage_getItem (\<lambda>saved.
                    if truthy saved then
                      try_catch
                        (bind_x (JSON_parse saved) (\<lambda>localItems.
                         bind_x (length_positive localItems) (\<lambda>nonempty.
                           if nonempty then
                             bind_x (as_array localItems) (\<lambda>entries.
                             seq_x (wishlist_await isAuthenticated
                                      (post_wishlist_sync api (map id' entries)))
                            (bind_x (wishlist_await isAuthenticated (get_wishlist api))
                               (\<lambda>syncResponse.
                                  let syncedProducts = map row_product syncResponse in
                                  seq_x (setItems (JArray syncedProducts))
                                    (localStorage_setItem
                                       (JSON_stringify (JArray syncedProducts))))))
                           else skip)))
                        (\<lambda>syncError. skip)
                    else skip)
                else skip)))))
             (\<lambda>error.
                try_catch
                  (bind_x localStorage_getItem (\<lambda>saved.
                     if truthy saved then bind_x (JSON_parse saved) setItems else skip))
                  (\<lambda>_. setItems (JArray []))))
          (setLoading False)
      else
        try_finally
          (try_catch
             (bind_x localStorage_getItem (\<lambda>saved.
                if truthy saved then bind_x (JSON_parse saved) setItems else setItems (JArray [])))
             (\<lambda>_. setItems (JArray [])))
          (setLoading False))"

text \<open>The adding updater returns \<^verbatim>\<open>prevItems\<close> itself when the product is already there.\<close>

definition wish_updater :: "product \<Rightarrow> product list \<Rightarrow> product list option" where
  "wish_updater p prevItems =
     (if list_ex (\<lambda>item. id' item = id' p) prevItems then None else Some (prevItems @ [p]))"

definition unwish_updater :: "product_id \<Rightarrow> product list \<Rightarrow> product list option" where
  "unwish_updater productId prevItems = Some (filter (\<lambda>item. id' item \<noteq> productId) prevItems)"

definition addToWishlist :: "bool \<Rightarrow> 'r wishlist_api \<Rightarrow> product \<Rightarrow> (product, 'r, unit) prog" where
  "addToWishlist isAuthenticated api p =
     (if isAuthenticated then
        try_catch
          (seq_x (wishlist_await isAuthenticated (post_wishlist_items api (id' p)))
             (loadWishlist isAuthenticated api))
          (\<lambda>error.
             if error = HttpError (Some 409) then loadWishlist isAuthenticated api
             else setItemsBy (wish_updater p))
      else setItemsBy (wish_updater p))"

definition removeFromWishlist ::
  "bool \<Rightarrow> 'r wishlist_api \<Rightarrow> product_id \<Rightarrow> (product, 'r, unit) prog" where
  "removeFromWishlist isAuthenticated api productId =
     (if isAuthenticated then
        try_catch
          (seq_x (wishlist_await isAuthenticated (delete_wishlist_items api productId))
             (loadWishlist isAuthenticated api))
          (\<lambda>error. setItemsBy (unwish_updater productId))
      else setItemsBy (unwish_updater productId))"

definition clearWishlist :: "bool \<Rightarrow> 'r wishlist_api \<Rightarrow> (product, 'r, unit) prog" where
  "clearWishlist isAuthenticated api =
     (if isAuthenticated then
        try_catch
          (seq_x (wishlist_await isAuthenticated (delete_wishlist api))
          (seq_x (setItems (JArray [])) localStorage_removeItem))
          (\<lambda>error. setItems (JArray []))
      else seq_x (setItems (JArray [])) localStorage_removeItem)"

definition isInWishlist :: "product_id \<Rightarrow> (product, 'r, bool) prog" where
  "isInWishlist productId =
     bind_x get_items (\<lambda>items_now.
       bind_x (as_array items_now) (\<lambda>entries.
         unit_x (list_ex (\<lambda>item. id' item = productId) entries)))"

definition toggleWishlist :: "bool \<Rightarrow> 'r wishlist_api \<Rightarrow> product \<Rightarrow> (product, 'r, unit) prog" where
  "toggleWishlist isAuthenticated api p =
     bind_x (isInWishlist (id' p)) (\<lambda>present.
       if present then removeFromWishlist isAuthenticated api (id' p)
       else addToWishlist isAuthenticated api p)"

definition wishlist_run :: "bool \<Rightarrow> (product, 'r, 'a) prog \<Rightarrow> (product, 'r, 'a) prog" where
  "wishlist_run isAuthenticated m = run (wishlist_effect isAuthenticated) m"

section \<open>Sessions of the cart\<close>

text \<open>
  What happens to a mounted \<^verbatim>\<open>CartProvider\<close>: the authentication state flips (the effect
  on \<^verbatim>\<open>[isAuthenticated]\<close> then calls \<^verbatim>\<open>loadCart\<close>), or a page calls a handler.
\<close>

datatype cart_event =
    Login
  | Logout
  | AddToCart product int
  | RemoveFromCart product_id
  | UpdateQuantity product_id int
  | ClearCart
  | SyncCart

fun cart_step ::
  "'r cart_api \<Rightarrow> bool \<times> (cart_item, 'r) provider \<Rightarrow> cart_event \<Rightarrow> bool \<times> (cart_item, 'r) provider"
where
  "cart_step api (auth, s) Login =
     (if auth then (auth, s) else (True, snd (cart_run (loadCart True api) s)))"
| "cart_step api (auth, s) Logout =
     (if auth then (False, snd (cart_run (loadCart False api) s)) else (auth, s))"
| "cart_step api (auth, s) (AddToCart p q) = (auth, snd (cart_run (addToCart auth api p q) s))"
| "cart_step api (auth, s) (RemoveFromCart a) = (auth, snd (cart_run (removeFromCart auth api a) s))"
| "cart_step api (auth, s) (UpdateQuantity a q) =
     (auth, snd (cart_run (updateQuantity auth api a q) s))"
| "cart_step api (auth, s) ClearCart = (auth, snd (cart_run (clearCart auth api) s))"
| "cart_step api (auth, s) SyncCart = (auth, snd (cart_run (syncCart auth api) s))"

definition cart_session ::
  "'r cart_api \<Rightarrow> cart_event list \<Rightarrow> bool \<times> (cart_item, 'r) provider \<Rightarrow> bool \<times> (cart_item, 'r) provider"
where
  "cart_session api evs st = foldl (cart_step api) st evs"

text \<open>
  Mounting: \<^verbatim>\<open>useState([])\<close>, \<^verbatim>\<open>useState(true)\<close>, no user yet (\<^verbatim>\<open>AuthContext\<close> starts with
  \<^verbatim>\<open>user = null\<close>), the first \<^verbatim>\<open>loadCart\<close>, and the persist effect due after the first render.
\<close>

definition cart_mount ::
  "'r cart_api \<Rightarrow> cart_item json stored option \<Rightarrow> 'r \<Rightarrow> bool \<times> (cart_item, 'r) provider" where
  "cart_mount api slot r =
     (False, snd (cart_run (loadCart False api)
        \<lparr>items = JArray [], loading = True, storage = slot, dirty = True, remote = r\<rparr>))"

section \<open>A backend to run the handlers against\<close>

text \<open>
  Modelled from the spec: the REST backend, which is not among the client's sources. The
  spec lists its endpoints: \<^verbatim>\<open>GET /cart\<close> answers the entries; \<^verbatim>\<open>POST /cart/items\<close> creates
  an entry; \<^verbatim>\<open>PUT /cart/items/{product_id}\<close> updates one; \<^verbatim>\<open>DELETE /cart/items/{product_id}\<close>
  and \<^verbatim>\<open>DELETE /cart\<close> answer 204; \<^verbatim>\<open>POST /cart/sync\<close> merges the entries sent into the
  remote cart, upserting by product; \<^verbatim>\<open>POST /wishlist/items/{product_id}\<close> creates an entry
  and answers 409 if it is already present; \<^verbatim>\<open>POST /wishlist/sync\<close> is a set union. A
  request names a product by its id and the answer carries the product, so the backend
  has a catalogue; an id it does not know is answered 404. While \<open>online\<close> is false no
  request gets a response.
\<close>

record backend =
  online :: bool
  catalogue :: "product list"
  cart_rows :: "cart_item list"
  wishlist_rows :: "product list"

text \<open>Modelled from the spec: a request gets a response only while the backend is reachable.\<close>

definition respond :: "(backend \<Rightarrow> (exn + 'a) \<times> backend) \<Rightarrow> backend \<Rightarrow> (exn + 'a) \<times> backend" where
  "respond handler b = (if online b then handler b else (Inl (HttpError None), b))"

text \<open>Modelled from the spec: the answer for a product or an entry the backend does not have.\<close>

definition not_found :: "backend \<Rightarrow> (exn + 'a) \<times> backend" where
  "not_found b = (Inl (HttpError (Some 404)), b)"

text \<open>
  Modelled from the spec: upsert by product, so that sending an entry the remote cart
  already has does not duplicate it.
\<close>

definition upsert :: "product \<Rightarrow> int \<Rightarrow> cart_item list \<Rightarrow> cart_item list" where
  "upsert p q rows =
     (if list_ex (\<lambda>row. id' (product row) = id' p) rows
      then map (\<lambda>row. if id' (product row) = id' p then row\<lparr>quantity := q\<rparr> else row) rows
      else rows @ [\<lparr>product = p, quantity = q\<rparr>])"

text \<open>Modelled from the spec: one entry of the body of \<^verbatim>\<open>POST /cart/sync\<close>, merged in.\<close>

definition upsert_known :: "product list \<Rightarrow> cart_item list \<Rightarrow> product_id \<times> int \<Rightarrow> cart_item list" where
  "upsert_known cat rows e =
     (case find (\<lambda>p. id' p = fst e) cat of None \<Rightarrow> rows | Some p \<Rightarrow> upsert p (snd e) rows)"

text \<open>Modelled from the spec: the set union of \<^verbatim>\<open>POST /wishlist/sync\<close>, one id at a time.\<close>

definition unite_known :: "product list \<Rightarrow> product list \<Rightarrow> product_id \<Rightarrow> product list" where
  "unite_known cat rows a =
     (case find (\<lambda>p. id' p = a) cat of
        None \<Rightarrow> rows
      | Some p \<Rightarrow> if list_ex (\<lambda>row. id' row = a) rows then rows else rows @ [p])"

text \<open>Modelled from the spec: the six cart endpoints.\<close>

definition backend_cart :: "backend cart_api" where
  "backend_cart =
     \<lparr>get_cart = respond (\<lambda>b. (Inr (cart_rows b), b)),
      post_cart_items = (\<lambda>a q. respond (\<lambda>b.
        case find (\<lambda>p. id' p = a) (catalogue b) of
          None \<Rightarrow> not_found b
        | Some p \<Rightarrow> (Inr (), b\<lparr>cart_rows := upsert p q (cart_rows b)\<rparr>))),
      put_cart_items = (\<lambda>a q. respond (\<lambda>b.
        case find (\<lambda>row. id' (product row) = a) (cart_rows b) of
          None \<Rightarrow> not_found b
        | Some row \<Rightarrow> (Inr (), b\<lparr>cart_rows := upsert (product row) q (cart_rows b)\<rparr>))),
      delete_cart_items = (\<lambda>a. respond (\<lambda>b.
        (Inr (), b\<lparr>cart_rows := filter (\<lambda>row. id' (product row) \<noteq> a) (cart_rows b)\<rparr>))),
      delete_cart = respond (\<lambda>b. (Inr (), b\<lparr>cart_rows := []\<rparr>)),
      post_cart_sync = (\<lambda>body. respond (\<lambda>b.
        (Inr (), b\<lparr>cart_rows := foldl (upsert_known (catalogue b)) (cart_rows b) body\<rparr>)))\<rparr>"

text \<open>Modelled from the spec: the five wishlist endpoints.\<close>

definition backend_wishlist :: "backend wishlist_api" where
  "backend_wishlist =
     \<lparr>get_wishlist = respond (\<lambda>b. (Inr (map WishlistRow (wishlist_rows b)), b)),
      post_wishlist_items = (\<lambda>a. respond (\<lambda>b.
        case find (\<lambda>p. id' p = a) (catalogue b) of
          None \<Rightarrow> not_found b
        | Some p \<Rightarrow>
            if list_ex (\<lambda>row. id' row = a) (wishlist_rows b)
            then (Inl (HttpError (Some 409)), b)
            else (Inr (), b\<lparr>wishlist_rows := wishlist_rows b @ [p]\<rparr>))),
      delete_wishlist_items = (\<lambda>a. respond (\<lambda>b.
        (Inr (), b\<lparr>wishlist_rows := filter (\<lambda>row. id' row \<noteq> a) (wishlist_rows b)\<rparr>))),
      delete_wishlist = respond (\<lambda>b. (Inr (), b\<lparr>wishlist_rows := []\<rparr>)),
      post_wishlist_sync = (\<lambda>body. respond (\<lambda>b.
        (Inr (), b\<lparr>wishlist_rows := foldl (unite_known (catalogue b)) (wishlist_rows b) body\<rparr>)))\<rparr>"

text \<open>
  Modelled from the spec: a transport failure. The connection drops the next \<open>n\<close> requests
  (no response reaches the client, the backend sees nothing) and passes the later ones
  on.
\<close>

definition outage :: "('r \<Rightarrow> (exn + 'a) \<times> 'r) \<Rightarrow> nat \<times> 'r \<Rightarrow> (exn + 'a) \<times> (nat \<times> 'r)" where
  "outage call c =
     (case c of (n, r) \<Rightarrow>
        if 0 < n then (Inl (HttpError None), (n - 1, r))
        else (case call r of (res, r') \<Rightarrow> (res, (0, r'))))"

text \<open>Modelled from the spec: the wishlist endpoints behind such a connection.\<close>

definition flaky_wishlist :: "(nat \<times> backend) wishlist_api" where
  "flaky_wishlist =
     \<lparr>get_wishlist = outage (get_wishlist backend_wishlist),
      post_wishlist_items = (\<lambda>a. outage (post_wishlist_items backend_wishlist a)),
      delete_wishlist_items = (\<lambda>a. outage (delete_wishlist_items backend_wishlist a)),
      delete_wishlist = outage (delete_wishlist backend_wishlist),
      post_wishlist_sync = (\<lambda>body. outage (post_wishlist_sync backend_wishlist body))\<rparr>"

text \<open>Two products and a small shop for the scenarios.\<close>

definition productA :: product where
  "productA = \<lparr>id' = ''A'', name = ''Rose Serum'', price = 12\<rparr>"

definition productB :: product where
  "productB = \<lparr>id' = ''B'', name = ''Night Cream'', price = 7\<rparr>"

definition shop :: "bool \<Rightarrow> backend" where
  "shop up = \<lparr>online = up, catalogue = [productA, productB], cart_rows = [], wishlist_rows = []\<rparr>"

section \<open>Properties of snapshots and sessions\<close>

text \<open>
  The two invariants of a cart snapshot in the data model: \<^verbatim>\<open>product.id\<close> is a key, and
  every quantity is positive. A snapshot satisfies a property of entry lists when it is
  an array and its entries satisfy it.
\<close>

definition unique_products :: "cart_item list \<Rightarrow> bool" where
  "unique_products xs = distinct (map (\<lambda>item. id' (product item)) xs)"

definition positive_quantities :: "cart_item list \<Rightarrow> bool" where
  "positive_quantities xs = list_all (\<lambda>item. 0 < quantity item) xs"

definition entries_satisfy :: "('e list \<Rightarrow> bool) \<Rightarrow> 'e json \<Rightarrow> bool" where
  "entries_satisfy P v = (case v of JArray xs \<Rightarrow> P xs | _ \<Rightarrow> False)"

text \<open>The three mutations of the cart, and those among them that add a positive quantity.\<close>

fun mutation :: "cart_event \<Rightarrow> bool" where
  "mutation (AddToCart p q) = True"
| "mutation (RemoveFromCart a) = True"
| "mutation (UpdateQuantity a q) = True"
| "mutation ev = False"

fun adds_positive :: "cart_event \<Rightarrow> bool" where
  "adds_positive (AddToCart p q) = (0 < q)"
| "adds_positive ev = True"

text \<open>The slot holds the serialization of the snapshot, and no persist effect is due.\<close>

definition mirrored :: "('e, 'r) provider \<Rightarrow> bool" where
  "mirrored s = (storage s = Some (JSON_stringify (items s)) \<and> \<not> dirty s)"

text \<open>A handler resolves when no exception leaves it.\<close>

definition resolves :: "(exn + 'a) \<times> ('e, 'r) provider \<Rightarrow> bool" where
  "resolves out = (case fst out of Inl e \<Rightarrow> False | Inr v \<Rightarrow> True)"

text \<open>
  The snapshot is an array, and the slot is absent, empty, unparseable or holds the
  serialization of an array: what the providers themselves write.
\<close>

definition is_array :: "'e json \<Rightarrow> bool" where
  "is_array v = (case v of JArray xs \<Rightarrow> True | _ \<Rightarrow> False)"

definition intact :: "('e, 'r) provider \<Rightarrow> bool" where
  "intact s =
     (is_array (items s)
      \<and> (case storage s of Some (Json v) \<Rightarrow> is_array v | _ \<Rightarrow> True))"

text \<open>
  The answers to \<^verbatim>\<open>POST /wishlist/items/{product_id}\<close> after which \<^verbatim>\<open>addToWishlist\<close> reloads:
  a success, or the conflict 409.
\<close>

definition reloads :: "exn + unit \<Rightarrow> bool" where
  "reloads res = (res = Inr () \<or> res = Inl (HttpError (Some 409)))"

text \<open>A mounted provider at rest: the snapshot \<open>xs\<close>, mirrored in the slot, nothing pending.\<close>

definition at_rest :: "'e list \<Rightarrow> 'r \<Rightarrow> ('e, 'r) provider" where
  "at_rest xs r =
     \<lparr>items = JArray xs, loading = False, storage = Some (JSON_stringify (JArray xs)),
      dirty = False, remote = r\<rparr>"

section \<open>What the handlers compute\<close>

lemmas monad_defs = unit_x_def skip_def throw_def bind_x_def seq_x_def try_catch_def try_finally_def
  get_items_def as_array_def length_positive_def setLoading_def setItems_def setItemsBy_def
  localStorage_getItem_def localStorage_setItem_def localStorage_removeItem_def JSON_stringify_def
  truthy_def JSON_parse_def request_def await_x_def run_def

lemmas cart_defs = cart_run_def cart_await_def cart_rows_of_def

lemmas wishlist_defs = wishlist_run_def wishlist_await_def

lemmas backend_defs = backend_cart_def backend_wishlist_def respond_def not_found_def shop_def
  productA_def productB_def at_rest_def

lemma commit_cart:
  "commit cart_effect s =
     (if dirty s then s\<lparr>storage := Some (Json (items s)), dirty := False\<rparr> else s)"
  by (simp add: commit_def cart_effect_def monad_defs)

lemma commit_wishlist:
  "commit (wishlist_effect auth) s =
     (if dirty s
      then (if auth then s\<lparr>dirty := False\<rparr> else s\<lparr>storage := Some (Json (items s)), dirty := False\<rparr>)
      else s)"
  by (simp add: commit_def wishlist_effect_def monad_defs)

lemma cart_rows_of_same: "cart_rows_of rows = rows"
  by (induction rows) (simp_all add: cart_rows_of_def)

text \<open>
  \<^verbatim>\<open>loadCart\<close> in closed form. Without a user it reads the slot and stores what the slot
  parses to, array or not. With a user it asks \<^verbatim>\<open>GET /cart\<close> once; the answer becomes the
  snapshot and is written to the slot before the slot is read, so the test for entries to
  push always reads the answer back, and no \<^verbatim>\<open>POST /cart/sync\<close> is sent. When the request
  fails the slot is the fallback, again with whatever it parses to.
\<close>

lemma loadCart_unauth:
  "loadCart False api s =
     (Inr (), (case storage s of
                 Some (Json v) \<Rightarrow> s\<lparr>items := v, dirty := True, loading := False\<rparr>
               | _ \<Rightarrow> s\<lparr>items := JArray [], dirty := True, loading := False\<rparr>))"
  by (simp add: loadCart_def monad_defs split: option.splits stored.splits)

lemma loadCart_auth:
  "loadCart True api s =
     (let s1 = commit cart_effect (s\<lparr>loading := True\<rparr>) in
      case get_cart api (remote s1) of
        (Inr rows, r') \<Rightarrow>
          (Inr (), s1\<lparr>remote := r', items := JArray rows, dirty := True,
                      storage := Some (Json (JArray rows)), loading := False\<rparr>)
      | (Inl e, r') \<Rightarrow>
          (Inr (), case storage s1 of
                     Some (Json v) \<Rightarrow> s1\<lparr>remote := r', items := v, dirty := True, loading := False\<rparr>
                   | Some Garbled \<Rightarrow>
                       s1\<lparr>remote := r', items := JArray [], dirty := True, loading := False\<rparr>
                   | _ \<Rightarrow> s1\<lparr>remote := r', loading := False\<rparr>))"
  by (auto simp: loadCart_def monad_defs cart_await_def cart_rows_of_same Let_def
      split: prod.splits sum.splits option.splits stored.splits)

lemma loadWishlist_unauth:
  "loadWishlist False api s =
     (Inr (), (case storage s of
                 Some (Json v) \<Rightarrow> s\<lparr>items := v, dirty := True, loading := False\<rparr>
               | _ \<Rightarrow> s\<lparr>items := JArray [], dirty := True, loading := False\<rparr>))"
  by (simp add: loadWishlist_def monad_defs split: option.splits stored.splits)

lemma loadWishlist_auth:
  "loadWishlist True api s =
     (let s1 = commit (wishlist_effect True) (s\<lparr>loading := True\<rparr>) in
      case get_wishlist api (remote s1) of
        (Inr rows, r') \<Rightarrow>
          (Inr (), s1\<lparr>remote := r', items := JArray (map row_product rows), dirty := True,
                      storage := Some (Json (JArray (map row_product rows))), loading := False\<rparr>)
      | (Inl e, r') \<Rightarrow>
          (Inr (), case storage s1 of
                     Some (Json v) \<Rightarrow> s1\<lparr>remote := r', items := v, dirty := True, loading := False\<rparr>
                   | Some Garbled \<Rightarrow>
                       s1\<lparr>remote := r', items := JArray [], dirty := True, loading := False\<rparr>
                   | _ \<Rightarrow> s1\<lparr>remote := r', loading := False\<rparr>))"
  by (auto simp: loadWishlist_def monad_defs wishlist_await_def Let_def
      split: prod.splits sum.splits option.splits stored.splits)

lemmas load_forms = loadCart_unauth loadCart_auth loadWishlist_unauth loadWishlist_auth

lemma fst_loadCart: "fst (loadCart auth api s) = Inr ()"
  by (cases auth) (auto simp: load_forms Let_def split: prod.splits sum.splits)

lemma fst_loadWishlist: "fst (loadWishlist auth api s) = Inr ()"
  by (cases auth) (auto simp: load_forms Let_def split: prod.splits sum.splits)

section \<open>Merge on login\<close>

text \<open>
  C1. The spec's scenario, run on the code: an anonymous visitor adds two of product A and
  one of product B, then logs in to an account whose remote cart is empty. The claim
  expects the snapshot to keep both entries and the backend to receive them. The code
  ends with an empty snapshot, an emptied slot and a backend cart that is still empty.
\<close>

theorem login_drops_anonymous_cart:
  "cart_session backend_cart [AddToCart productA 2, AddToCart productB 1]
       (cart_mount backend_cart None (shop True))
     = (False, at_rest [\<lparr>product = productA, quantity = 2\<rparr>, \<lparr>product = productB, quantity = 1\<rparr>]
                  (shop True))
   \<and> cart_session backend_cart [AddToCart productA 2, AddToCart productB 1, Login]
       (cart_mount backend_cart None (shop True))
     = (True, at_rest [] (shop True))
   \<and> wishlist_run True (loadWishlist True backend_wishlist)
       (at_rest [productA, productB] (shop True))
     = (Inr (), at_rest [] (shop True))"
  by (simp add: cart_session_def cart_mount_def addToCart_def add_updater_def cart_defs
      wishlist_defs monad_defs commit_cart commit_wishlist load_forms backend_defs Let_def)

text \<open>
  The explicit \<^verbatim>\<open>syncCart\<close> does push the entries of the slot: the same entries, in the
  slot of a logged-in user, reach the backend.
\<close>

lemma syncCart_pushes_slot:
  "cart_run (syncCart True backend_cart)
       (at_rest [\<lparr>product = productA, quantity = 2\<rparr>, \<lparr>product = productB, quantity = 1\<rparr>]
          (shop True))
     = (Inr (), at_rest [\<lparr>product = productA, quantity = 2\<rparr>, \<lparr>product = productB, quantity = 1\<rparr>]
                  ((shop True)\<lparr>cart_rows := [\<lparr>product = productA, quantity = 2\<rparr>,
                                              \<lparr>product = productB, quantity = 1\<rparr>]\<rparr>))"
  by (simp add: syncCart_def sync_body_def upsert_known_def upsert_def cart_defs monad_defs
      commit_cart load_forms backend_defs Let_def)

section \<open>Unauthenticated mutations and the invariants of the cart\<close>

lemma add_unique:
  assumes "unique_products xs"
  shows "\<exists>ys. add_updater p q xs = Some ys \<and> unique_products ys"
proof (cases "find (\<lambda>item. id' (product item) = id' p) xs")
  case None
  then have "id' p \<notin> set (map (\<lambda>item. id' (product item)) xs)"
    by (auto simp: find_None_iff)
  with assms None show ?thesis
    by (simp add: add_updater_def unique_products_def)
next
  case (Some existingItem)
  let ?f = "\<lambda>item. if id' (product item) = id' p then item\<lparr>quantity := quantity item + q\<rparr> else item"
  have keys: "map (\<lambda>item. id' (product item)) (map ?f xs) = map (\<lambda>item. id' (product item)) xs"
    by (induction xs) auto
  have "distinct (map (\<lambda>item. id' (product item)) (map ?f xs))"
    unfolding keys using assms by (simp add: unique_products_def)
  then show ?thesis
    using Some by (simp add: add_updater_def unique_products_def)
qed

lemma add_positive:
  assumes "positive_quantities xs" "0 < q" "add_updater p q xs = Some ys"
  shows "positive_quantities ys"
  using assms
  by (auto simp: add_updater_def positive_quantities_def list_all_iff split: option.splits
      intro!: add_pos_pos)

lemma remove_unique:
  "unique_products xs \<Longrightarrow> unique_products (filter (\<lambda>item. id' (product item) \<noteq> a) xs)"
  by (simp add: unique_products_def distinct_map_filter)

lemma remove_positive:
  "positive_quantities xs \<Longrightarrow> positive_quantities (filter (\<lambda>item. id' (product item) \<noteq> a) xs)"
  by (auto simp: positive_quantities_def list_all_iff)

lemma quantity_unique:
  assumes "unique_products xs"
  shows "unique_products
           (map (\<lambda>item. if id' (product item) = a then item\<lparr>quantity := q\<rparr> else item) xs)"
proof -
  let ?f = "\<lambda>item. if id' (product item) = a then item\<lparr>quantity := q\<rparr> else item"
  have keys: "map (\<lambda>item. id' (product item)) (map ?f xs) = map (\<lambda>item. id' (product item)) xs"
    by (induction xs) auto
  have "distinct (map (\<lambda>item. id' (product item)) (map ?f xs))"
    unfolding keys using assms by (simp add: unique_products_def)
  then show ?thesis
    by (simp add: unique_products_def)
qed

lemma quantity_positive:
  "positive_quantities xs \<Longrightarrow> 0 < q \<Longrightarrow>
   positive_quantities
     (map (\<lambda>item. if id' (product item) = a then item\<lparr>quantity := q\<rparr> else item) xs)"
  by (auto simp: positive_quantities_def list_all_iff)

lemma run_setItemsBy:
  "items s = JArray xs \<Longrightarrow> f xs = Some ys \<Longrightarrow> items (snd (cart_run (setItemsBy f) s)) = JArray ys"
  by (simp add: cart_run_def run_def setItemsBy_def setItems_def get_items_def as_array_def
      bind_x_def unit_x_def commit_cart)

text \<open>One mutation without a user: the snapshot stays an array with unique products, and
  with positive quantities when it had them and the mutation adds a positive quantity.\<close>

lemma unauth_step:
  assumes "items s = JArray xs" "unique_products xs" "mutation ev"
  shows "\<exists>ys. fst (cart_step api (False, s) ev) = False
            \<and> items (snd (cart_step api (False, s) ev)) = JArray ys
            \<and> unique_products ys
            \<and> (positive_quantities xs \<and> adds_positive ev \<longrightarrow> positive_quantities ys)"
proof (cases ev)
  case (AddToCart p q)
  obtain ys where ys: "add_updater p q xs = Some ys" "unique_products ys"
    using add_unique[OF assms(2), of p q] by auto
  with AddToCart assms(1) show ?thesis
    by (auto simp: addToCart_def run_setItemsBy add_positive)
next
  case (RemoveFromCart a)
  with assms show ?thesis
    by (simp add: removeFromCart_def run_setItemsBy[OF _ remove_updater_def] remove_unique
        remove_positive)
next
  case (UpdateQuantity a q)
  with assms show ?thesis
    by (cases "q \<le> 0")
       (simp_all add: updateQuantity_def removeFromCart_def run_setItemsBy[OF _ remove_updater_def]
          remove_unique remove_positive run_setItemsBy[OF _ quantity_updater_def] quantity_unique
          quantity_positive)
qed (use assms in simp_all)

lemma unauth_session:
  "items s = JArray xs \<Longrightarrow> unique_products xs \<Longrightarrow> list_all mutation evs \<Longrightarrow>
   \<exists>ys. items (snd (cart_session api evs (False, s))) = JArray ys
      \<and> unique_products ys
      \<and> (positive_quantities xs \<and> list_all adds_positive evs \<longrightarrow> positive_quantities ys)"
proof (induction evs arbitrary: s xs)
  case Nil
  then show ?case by (simp add: cart_session_def)
next
  case (Cons ev evs)
  from Cons.prems obtain s' ys where step: "cart_step api (False, s) ev = (False, s')"
      "items s' = JArray ys" "unique_products ys"
      "positive_quantities xs \<and> adds_positive ev \<longrightarrow> positive_quantities ys"
    using unauth_step[of s xs ev api] by (cases "cart_step api (False, s) ev") auto
  from Cons.IH[OF step(2,3)] Cons.prems obtain zs
    where zs: "items (snd (cart_session api evs (False, s'))) = JArray zs" "unique_products zs"
      "positive_quantities ys \<and> list_all adds_positive evs \<longrightarrow> positive_quantities zs"
    by auto
  with step show ?case
    by (auto simp: cart_session_def)
qed

text \<open>
  C2, as stated, fails in its second half: \<^verbatim>\<open>addToCart\<close> stores whatever quantity it is
  given. One add of quantity 0 to the empty cart, without a user, leaves an entry of
  quantity 0.
\<close>

theorem add_of_zero_breaks_positivity:
  "list_all mutation [AddToCart productA 0]
   \<and> items (snd (cart_session backend_cart [AddToCart productA 0] (False, at_rest [] (shop True))))
       = JArray [\<lparr>product = productA, quantity = 0\<rparr>]
   \<and> \<not> entries_satisfy positive_quantities
         (items (snd (cart_session backend_cart [AddToCart productA 0]
                        (False, at_rest [] (shop True)))))"
  by (simp add: cart_session_def addToCart_def add_updater_def cart_defs monad_defs commit_cart
      backend_defs entries_satisfy_def positive_quantities_def)

text \<open>
  C2, amended: for every sequence of add, remove and updateQuantity issued without a user,
  starting from the empty snapshot, the snapshot never has two entries of one product;
  and when every add of the sequence carries a quantity of at least 1, it never has an
  entry of quantity 0 or less. The first half needs no condition (the witness runs it
  through adds of 0 and of -1); the pages only ever add 1 or a quantity clamped to at
  least 1.
\<close>

theorem unauthenticated_mutations_keep_cart_wf:
  "list_all mutation evs \<Longrightarrow> items s = JArray [] \<Longrightarrow>
   entries_satisfy unique_products (items (snd (cart_session api evs (False, s))))
   \<and> (list_all adds_positive evs \<longrightarrow>
        entries_satisfy positive_quantities (items (snd (cart_session api evs (False, s)))))"
  using unauth_session[of s "[]" evs api]
  by (auto simp: entries_satisfy_def unique_products_def positive_quantities_def)

theorem unauthenticated_mutations_keep_cart_wf_witness:
  "list_all mutation [AddToCart productA 2, AddToCart productB 1, AddToCart productA 3,
                      UpdateQuantity ''B'' 0, RemoveFromCart ''C'']
   \<and> items (at_rest [] (shop True)) = JArray []
   \<and> list_all adds_positive [AddToCart productA 2, AddToCart productB 1, AddToCart productA 3,
                             UpdateQuantity ''B'' 0, RemoveFromCart ''C'']
   \<and> entries_satisfy unique_products (items (snd (cart_session backend_cart
        [AddToCart productA 2, AddToCart productB 1, AddToCart productA 3,
         UpdateQuantity ''B'' 0, RemoveFromCart ''C''] (False, at_rest [] (shop True)))))
   \<and> entries_satisfy positive_quantities (items (snd (cart_session backend_cart
        [AddToCart productA 2, AddToCart productB 1, AddToCart productA 3,
         UpdateQuantity ''B'' 0, RemoveFromCart ''C''] (False, at_rest [] (shop True)))))
   \<and> list_all mutation [AddToCart productA 0, AddToCart productA (- 1), AddToCart productB 1]
   \<and> entries_satisfy unique_products (items (snd (cart_session backend_cart
        [AddToCart productA 0, AddToCart productA (- 1), AddToCart productB 1]
        (False, at_rest [] (shop True)))))"
  using unauthenticated_mutations_keep_cart_wf
    [of "[AddToCart productA 2, AddToCart productB 1, AddToCart productA 3,
          UpdateQuantity ''B'' 0, RemoveFromCart ''C'']" "at_rest [] (shop True)" backend_cart]
    unauthenticated_mutations_keep_cart_wf
    [of "[AddToCart productA 0, AddToCart productA (- 1), AddToCart productB 1]"
        "at_rest [] (shop True)" backend_cart]
  by (simp add: at_rest_def)

section \<open>Adding to the wishlist twice\<close>

lemma wishlist_add_reloads:
  assumes "reloads (fst (post_wishlist_items api (id' p) (remote t)))"
  shows "wishlist_run True (addToWishlist True api p) t =
         wishlist_run True (loadWishlist True api)
           ((commit (wishlist_effect True) t)
              \<lparr>remote := snd (post_wishlist_items api (id' p) (remote t))\<rparr>)"
proof -
  let ?t1 = "(commit (wishlist_effect True) t)
               \<lparr>remote := snd (post_wishlist_items api (id' p) (remote t))\<rparr>"
  have rem: "remote (commit (wishlist_effect True) t) = remote t"
    by (simp add: commit_wishlist)
  have "addToWishlist True api p t = loadWishlist True api ?t1"
    using assms fst_loadWishlist[of True api ?t1]
    by (cases "post_wishlist_items api (id' p) (remote t)"; cases "loadWishlist True api ?t1")
       (auto simp: reloads_def addToWishlist_def wishlist_await_def monad_defs rem)
  then show ?thesis
    by (simp add: wishlist_run_def run_def)
qed

lemma wishlist_add_falls_back:
  assumes "\<not> reloads (fst (post_wishlist_items api (id' p) (remote t)))"
  shows "snd (wishlist_run True (addToWishlist True api p) t) =
         (case items t of
            JArray xs \<Rightarrow>
              t\<lparr>items := JArray (if list_ex (\<lambda>item. id' item = id' p) xs then xs else xs @ [p]),
                dirty := False, remote := snd (post_wishlist_items api (id' p) (remote t))\<rparr>
          | _ \<Rightarrow> t\<lparr>dirty := False, remote := snd (post_wishlist_items api (id' p) (remote t))\<rparr>)"
  using assms
  by (cases "post_wishlist_items api (id' p) (remote t)")
     (auto simp: reloads_def addToWishlist_def wish_updater_def wishlist_defs monad_defs
        commit_wishlist split: sum.splits json.splits)

lemma wishlist_add_twice_unauth:
  "items (snd (wishlist_run False (addToWishlist False api p)
            (snd (wishlist_run False (addToWishlist False api p) s))))
     = items (snd (wishlist_run False (addToWishlist False api p) s))"
  by (simp add: addToWishlist_def wish_updater_def wishlist_defs monad_defs commit_wishlist
      split: json.splits)

lemma wishlist_add_twice_rejected:
  assumes "\<not> reloads (fst (post_wishlist_items api (id' p) (remote t)))"
    and "\<not> reloads (fst (post_wishlist_items api (id' p)
                           (snd (post_wishlist_items api (id' p) (remote t)))))"
  shows "items (snd (wishlist_run True (addToWishlist True api p)
            (snd (wishlist_run True (addToWishlist True api p) t))))
     = items (snd (wishlist_run True (addToWishlist True api p) t))"
proof -
  let ?t1 = "snd (wishlist_run True (addToWishlist True api p) t)"
  have t1: "remote ?t1 = snd (post_wishlist_items api (id' p) (remote t))"
    by (simp add: wishlist_add_falls_back[OF assms(1)] split: json.splits)
  with assms(2) have "\<not> reloads (fst (post_wishlist_items api (id' p) (remote ?t1)))"
    by simp
  from wishlist_add_falls_back[OF this] show ?thesis
    by (simp add: wishlist_add_falls_back[OF assms(1)] split: json.splits)
qed

lemma loaded_wishlist:
  "items (snd (wishlist_run True (loadWishlist True api) u)) =
     (case fst (get_wishlist api (remote u)) of
        Inr rows \<Rightarrow> JArray (map row_product rows)
      | Inl e \<Rightarrow> (case storage u of
                    Some (Json v) \<Rightarrow> v
                  | Some Garbled \<Rightarrow> JArray []
                  | _ \<Rightarrow> items u))"
  "storage (snd (wishlist_run True (loadWishlist True api) u)) =
     (case fst (get_wishlist api (remote u)) of
        Inr rows \<Rightarrow> Some (Json (JArray (map row_product rows)))
      | Inl e \<Rightarrow> storage u)"
  "remote (snd (wishlist_run True (loadWishlist True api) u)) = snd (get_wishlist api (remote u))"
  by (auto simp: wishlist_run_def run_def commit_wishlist load_forms Let_def
      split: prod.splits sum.splits option.splits stored.splits)

lemma committed_wishlist:
  "items (commit (wishlist_effect True) u) = items u"
  "storage (commit (wishlist_effect True) u) = storage u"
  "remote (commit (wishlist_effect True) u) = remote u"
  by (simp_all add: commit_wishlist)

lemma wishlist_add_twice_reloaded:
  assumes "reloads (fst (post_wishlist_items api (id' p) (remote t)))"
    and "reloads (fst (post_wishlist_items api (id' p) (snd (get_wishlist api (snd (post_wishlist_items api (id' p) (remote t)))))))"
    and "fst (get_wishlist api (snd (post_wishlist_items api (id' p) (snd (get_wishlist api (snd (post_wishlist_items api (id' p) (remote t))))))))
         = fst (get_wishlist api (snd (post_wishlist_items api (id' p) (remote t))))"
  shows "items (snd (wishlist_run True (addToWishlist True api p)
            (snd (wishlist_run True (addToWishlist True api p) t))))
     = items (snd (wishlist_run True (addToWishlist True api p) t))"
proof -
  let ?r1 = "snd (post_wishlist_items api (id' p) (remote t))"
  let ?u1 = "(commit (wishlist_effect True) t)\<lparr>remote := ?r1\<rparr>"
  let ?t1 = "snd (wishlist_run True (loadWishlist True api) ?u1)"
  have one: "snd (wishlist_run True (addToWishlist True api p) t) = ?t1"
    by (simp add: wishlist_add_reloads[OF assms(1)])
  have rem: "remote ?t1 = snd (get_wishlist api ?r1)"
    by (simp add: loaded_wishlist)
  let ?r3 = "snd (post_wishlist_items api (id' p) (remote ?t1))"
  let ?u2 = "(commit (wishlist_effect True) ?t1)\<lparr>remote := ?r3\<rparr>"
  from assms(2) rem have "reloads (fst (post_wishlist_items api (id' p) (remote ?t1)))"
    by simp
  then have two: "wishlist_run True (addToWishlist True api p) ?t1 =
        wishlist_run True (loadWishlist True api) ?u2"
    by (rule wishlist_add_reloads)
  have same: "fst (get_wishlist api ?r3) = fst (get_wishlist api ?r1)"
    using assms(3) rem by simp
  have "items (snd (wishlist_run True (loadWishlist True api) ?u2)) = items ?t1"
  proof (cases "fst (get_wishlist api ?r1)")
    case (Inl e)
    with same show ?thesis
      by (simp add: loaded_wishlist committed_wishlist split: option.splits stored.splits)
  next
    case (Inr rows)
    with same show ?thesis
      by (simp add: loaded_wishlist committed_wishlist)
  qed
  then show ?thesis
    unfolding one two .
qed

lemma find_Some_holds: "find P xs = Some x \<Longrightarrow> P x"
  by (induction xs) (auto split: if_splits)

lemma wishlist_add_twice_backend:
  "items (snd (wishlist_run True (addToWishlist True backend_wishlist p)
            (snd (wishlist_run True (addToWishlist True backend_wishlist p) t))))
     = items (snd (wishlist_run True (addToWishlist True backend_wishlist p) t))"
proof (cases "online (remote t)")
  case False
  then show ?thesis
    by (simp add: addToWishlist_def wish_updater_def wishlist_defs monad_defs commit_wishlist
        backend_wishlist_def respond_def split: json.splits)
next
  case True
  show ?thesis
  proof (cases "find (\<lambda>c. id' c = id' p) (catalogue (remote t))")
    case None
    with True show ?thesis
      by (simp add: addToWishlist_def wish_updater_def wishlist_defs monad_defs commit_wishlist
          backend_wishlist_def respond_def not_found_def split: json.splits)
  next
    case (Some c)
    then have "id' c = id' p" by (rule find_Some_holds)
    with True Some show ?thesis
      by (simp add: addToWishlist_def wish_updater_def wishlist_defs monad_defs commit_wishlist
          backend_wishlist_def respond_def not_found_def load_forms Let_def o_def)
  qed
qed

text \<open>
  C3, as stated, fails with a user: the snapshot is [B], the remote wishlist holds A, and
  the connection drops one request. The first add is rejected and falls back to the
  local insertion, [B, A]; the second is answered 409 and reloads, [A].
\<close>

theorem flaky_backend_breaks_idempotence:
  "items (snd (wishlist_run True (addToWishlist True flaky_wishlist productA)
        (at_rest [productB] (1, (shop True)\<lparr>wishlist_rows := [productA]\<rparr>))))
     = JArray [productB, productA]
   \<and> items (snd (wishlist_run True (addToWishlist True flaky_wishlist productA)
        (snd (wishlist_run True (addToWishlist True flaky_wishlist productA)
           (at_rest [productB] (1, (shop True)\<lparr>wishlist_rows := [productA]\<rparr>))))))
     = JArray [productA]
   \<and> items (snd (wishlist_run True (addToWishlist True flaky_wishlist productA)
        (snd (wishlist_run True (addToWishlist True flaky_wishlist productA)
           (at_rest [productB] (1, (shop True)\<lparr>wishlist_rows := [productA]\<rparr>))))))
     \<noteq> items (snd (wishlist_run True (addToWishlist True flaky_wishlist productA)
        (at_rest [productB] (1, (shop True)\<lparr>wishlist_rows := [productA]\<rparr>))))"
  by (simp add: addToWishlist_def wish_updater_def wishlist_defs monad_defs commit_wishlist
      load_forms Let_def flaky_wishlist_def outage_def backend_defs)

text \<open>
  C3, amended: adding a product to the wishlist twice in a row leaves the snapshot that
  adding it once leaves: without a user, always; with a user, whenever the second create
  request meets the fate of the first, that is, both are rejected (with anything but
  409), or both are answered (success or 409) and the reload after the second fetches
  what the reload after the first fetched. Both hold for every backend. In particular it
  holds in every state of the backend of the REST contract, reachable or not.
\<close>

theorem wishlist_add_idempotent:
  "items (snd (wishlist_run False (addToWishlist False api p)
            (snd (wishlist_run False (addToWishlist False api p) s))))
     = items (snd (wishlist_run False (addToWishlist False api p) s))
   \<and> (\<not> reloads (fst (post_wishlist_items api (id' p) (remote t)))
       \<and> \<not> reloads (fst (post_wishlist_items api (id' p)
                            (snd (post_wishlist_items api (id' p) (remote t)))))
       \<longrightarrow> items (snd (wishlist_run True (addToWishlist True api p)
                  (snd (wishlist_run True (addToWishlist True api p) t))))
           = items (snd (wishlist_run True (addToWishlist True api p) t)))
   \<and> (let r1 = snd (post_wishlist_items api (id' p) (remote t));
           r2 = snd (get_wishlist api r1);
           r3 = snd (post_wishlist_items api (id' p) r2)
       in reloads (fst (post_wishlist_items api (id' p) (remote t)))
          \<and> reloads (fst (post_wishlist_items api (id' p) r2))
          \<and> fst (get_wishlist api r3) = fst (get_wishlist api r1)
          \<longrightarrow> items (snd (wishlist_run True (addToWishlist True api p)
                     (snd (wishlist_run True (addToWishlist True api p) t))))
              = items (snd (wishlist_run True (addToWishlist True api p) t)))
   \<and> items (snd (wishlist_run True (addToWishlist True backend_wishlist p)
            (snd (wishlist_run True (addToWishlist True backend_wishlist p) u))))
     = items (snd (wishlist_run True (addToWishlist True backend_wishlist p) u))"
  using wishlist_add_twice_unauth[of api p s] wishlist_add_twice_rejected[of api p t]
    wishlist_add_twice_reloaded[of api p t] wishlist_add_twice_backend[of p u]
  by (simp add: Let_def)

theorem wishlist_add_idempotent_witness:
  "\<not> reloads (fst (post_wishlist_items backend_wishlist (id' productA)
                    (remote (at_rest [productB] (shop False)))))
   \<and> \<not> reloads (fst (post_wishlist_items backend_wishlist (id' productA)
                    (snd (post_wishlist_items backend_wishlist (id' productA)
                            (remote (at_rest [productB] (shop False)))))))
   \<and> items (snd (wishlist_run True (addToWishlist True backend_wishlist productA)
              (snd (wishlist_run True (addToWishlist True backend_wishlist productA)
                      (at_rest [productB] (shop False))))))
     = JArray [productB, productA]
   \<and> items (snd (wishlist_run True (addToWishlist True backend_wishlist productA)
              (at_rest [productB] (shop False))))
     = JArray [productB, productA]
   \<and> reloads (fst (post_wishlist_items backend_wishlist (id' productA)
                  (remote (at_rest [productB] (shop True)))))
   \<and> reloads (fst (post_wishlist_items backend_wishlist (id' productA)
                  (snd (get_wishlist backend_wishlist
                     (snd (post_wishlist_items backend_wishlist (id' productA)
                             (remote (at_rest [productB] (shop True)))))))))
   \<and> fst (post_wishlist_items backend_wishlist (id' productA)
                  (snd (get_wishlist backend_wishlist
                     (snd (post_wishlist_items backend_wishlist (id' productA)
                             (remote (at_rest [productB] (shop True))))))))
     = Inl (HttpError (Some 409))
   \<and> items (snd (wishlist_run True (addToWishlist True backend_wishlist productA)
              (snd (wishlist_run True (addToWishlist True backend_wishlist productA)
                      (at_rest [productB] (shop True))))))
     = JArray [productA]
   \<and> items (snd (wishlist_run True (addToWishlist True backend_wishlist productA)
              (at_rest [productB] (shop True))))
     = JArray [productA]"
  using wishlist_add_idempotent
          [where api = backend_wishlist and p = productA and s = "at_rest [productB] (shop False)"
             and t = "at_rest [productB] (shop False)" and u = "at_rest [productB] (shop False)"]
        wishlist_add_idempotent
          [where api = backend_wishlist and p = productA and s = "at_rest [productB] (shop True)"
             and t = "at_rest [productB] (shop True)" and u = "at_rest [productB] (shop True)"]
  by (simp add: reloads_def addToWishlist_def wish_updater_def wishlist_defs monad_defs
      commit_wishlist load_forms Let_def backend_defs)

section \<open>Clearing and removing\<close>

text \<open>
  C4. \<^verbatim>\<open>clearCart\<close> and \<^verbatim>\<open>clearWishlist\<close> leave an empty snapshot, with or without a user,
  whatever the backend answers to the delete-all request and whatever the snapshot held.
\<close>

theorem clear_always_empties:
  "items (snd (cart_run (clearCart auth capi) s)) = JArray []
   \<and> items (snd (wishlist_run auth' (clearWishlist auth' wapi) t)) = JArray []"
  by (auto simp: clearCart_def clearWishlist_def cart_defs wishlist_defs monad_defs
      commit_cart commit_wishlist split: prod.splits sum.splits)

text \<open>
  C5. With a user, when the delete request for product \<open>a\<close> is rejected, the snapshot
  after \<^verbatim>\<open>removeFromCart\<close> (\<^verbatim>\<open>removeFromWishlist\<close>) is the snapshot before with the entries of
  \<open>a\<close> filtered out. (A snapshot that is not an array has no entries to filter: the
  updater throws and the snapshot stays.)
\<close>

theorem remove_falls_back_to_filter:
  "(fst (delete_cart_items capi a (remote s)) = Inl e \<longrightarrow>
      items (snd (cart_run (removeFromCart True capi a) s))
        = (case items s of
             JArray xs \<Rightarrow> JArray (filter (\<lambda>item. id' (product item) \<noteq> a) xs)
           | v \<Rightarrow> v))
   \<and> (fst (delete_wishlist_items wapi a (remote t)) = Inl e' \<longrightarrow>
      items (snd (wishlist_run True (removeFromWishlist True wapi a) t))
        = (case items t of
             JArray xs \<Rightarrow> JArray (filter (\<lambda>item. id' item \<noteq> a) xs)
           | v \<Rightarrow> v))"
  by (auto simp: removeFromCart_def removeFromWishlist_def remove_updater_def unwish_updater_def
      cart_defs wishlist_defs monad_defs commit_cart commit_wishlist
      split: prod.splits sum.splits json.splits)

theorem remove_falls_back_to_filter_witness:
  "fst (delete_cart_items backend_cart ''A''
         (remote (at_rest [\<lparr>product = productA, quantity = 1\<rparr>] (shop False)))) = Inl (HttpError None)
   \<and> items (snd (cart_run (removeFromCart True backend_cart ''A'')
         (at_rest [\<lparr>product = productA, quantity = 1\<rparr>] (shop False)))) = JArray []
   \<and> fst (delete_wishlist_items backend_wishlist ''A''
         (remote (at_rest [productA, productB] (shop False)))) = Inl (HttpError None)
   \<and> items (snd (wishlist_run True (removeFromWishlist True backend_wishlist ''A'')
         (at_rest [productA, productB] (shop False)))) = JArray [productB]"
  using remove_falls_back_to_filter
    [of backend_cart "''A''" "at_rest [\<lparr>product = productA, quantity = 1\<rparr>] (shop False)"
        "HttpError None" backend_wishlist "at_rest [productA, productB] (shop False)" "HttpError None"]
  by (simp add: backend_defs)

text \<open>
  C6. \<^verbatim>\<open>updateQuantity\<close> with a quantity of 0 or less does what \<^verbatim>\<open>removeFromCart\<close> does, with
  or without a user: the same outcome and the same state, the snapshot included.
\<close>

theorem update_to_nonpositive_is_remove:
  "q \<le> 0 \<Longrightarrow> cart_run (updateQuantity auth api a q) s = cart_run (removeFromCart auth api a) s"
  by (simp add: updateQuantity_def)

theorem update_to_nonpositive_is_remove_witness:
  "(0::int) \<le> 0
   \<and> cart_run (updateQuantity False backend_cart ''A'' 0)
        (at_rest [\<lparr>product = productA, quantity = 1\<rparr>] (shop True))
     = cart_run (removeFromCart False backend_cart ''A'')
        (at_rest [\<lparr>product = productA, quantity = 1\<rparr>] (shop True))
   \<and> items (snd (cart_run (updateQuantity False backend_cart ''A'' 0)
        (at_rest [\<lparr>product = productA, quantity = 1\<rparr>] (shop True)))) = JArray []"
  using update_to_nonpositive_is_remove
    [of 0 False backend_cart "''A''" "at_rest [\<lparr>product = productA, quantity = 1\<rparr>] (shop True)"]
  by (simp add: removeFromCart_def remove_updater_def cart_defs monad_defs commit_cart backend_defs)

section \<open>Totals\<close>

lemma foldl_plus: "foldl (\<lambda>total x. total + f x) a xs = a + sum_list (map f xs)"
  for a :: "'a::monoid_add"
  by (induction xs arbitrary: a) (simp_all add: add.assoc)

text \<open>
  C7. On every cart snapshot (an array of entries) \<^verbatim>\<open>getTotalPrice\<close> is the sum over the
  entries of quantity times price, \<^verbatim>\<open>getTotalItems\<close> the sum of the quantities; both return
  the state they were given. (On a value that is not an array \<^verbatim>\<open>reduce\<close> raises
  \<^verbatim>\<open>TypeError\<close>.)
\<close>

theorem totals_are_sums:
  "getTotalPrice s =
     (case items s of
        JArray xs \<Rightarrow> (Inr (\<Sum>item\<leftarrow>xs. of_int (quantity item) * price (product item)), s)
      | _ \<Rightarrow> (Inl TypeError, s))
   \<and> getTotalItems s =
     (case items s of
        JArray xs \<Rightarrow> (Inr (\<Sum>item\<leftarrow>xs. quantity item), s)
      | _ \<Rightarrow> (Inl TypeError, s))"
  by (simp add: getTotalPrice_def getTotalItems_def bind_x_def get_items_def unit_x_def
      as_array_def throw_def foldl_plus mult.commute split: json.splits)

section \<open>Which handlers can throw\<close>

lemma resolves_run: "resolves (run eff m s) = resolves (m s)"
  by (simp add: resolves_def run_def split: prod.splits)

lemma resolves_load: "resolves (loadCart auth capi s)" "resolves (loadWishlist auth wapi t)"
  by (simp_all add: resolves_def fst_loadCart fst_loadWishlist)

lemma resolves_try_catch:
  assumes "\<And>e s'. m s = (Inl e, s') \<Longrightarrow> resolves (h e s')"
  shows "resolves (try_catch m h s)"
proof (cases "m s")
  case (Pair res s')
  show ?thesis
  proof (cases res)
    case (Inl e)
    with Pair show ?thesis by (simp add: try_catch_def assms)
  next
    case (Inr v)
    with Pair show ?thesis by (simp add: try_catch_def resolves_def)
  qed
qed

lemma resolves_setItems: "resolves (setItems v s)"
  by (simp add: resolves_def setItems_def)

lemma resolves_skip: "resolves (skip s)"
  by (simp add: resolves_def skip_def unit_x_def)

lemma resolves_setItemsBy: "is_array (items s) \<Longrightarrow> resolves (setItemsBy f s)"
  by (auto simp: resolves_def is_array_def setItemsBy_def monad_defs split: json.splits option.splits)

lemma load_never_fails:
  "loadCart auth api s \<noteq> (Inl e, s')"
  "loadWishlist auth wapi t \<noteq> (Inl e, t')"
  using fst_loadCart[of auth api s] fst_loadWishlist[of auth wapi t] by auto

lemma items_commit: "items (commit cart_effect s) = items s"
  "items (commit (wishlist_effect auth) t) = items t"
  by (simp_all add: commit_cart commit_wishlist)

lemma resolves_loadCart: "resolves (cart_run (loadCart auth api) s)"
  by (simp add: cart_run_def resolves_run resolves_load)

lemma resolves_clearCart: "resolves (cart_run (clearCart auth api) s)"
  by (simp add: cart_run_def resolves_run clearCart_def resolves_try_catch resolves_setItems)
     (simp add: resolves_def monad_defs)

lemma resolves_syncCart: "resolves (cart_run (syncCart auth api) s)"
  by (simp add: cart_run_def resolves_run syncCart_def resolves_try_catch resolves_skip)

lemma resolves_addToCart:
  "is_array (items s) \<Longrightarrow> resolves (cart_run (addToCart auth api p q) s)"
  by (cases auth)
     (auto simp: resolves_def is_array_def addToCart_def add_updater_def cart_defs monad_defs
        items_commit load_never_fails split: prod.splits sum.splits option.splits json.splits)

lemma resolves_removeFromCart:
  "is_array (items s) \<Longrightarrow> resolves (cart_run (removeFromCart auth api a) s)"
  by (cases auth)
     (auto simp: resolves_def is_array_def removeFromCart_def remove_updater_def cart_defs
        monad_defs items_commit load_never_fails split: prod.splits sum.splits json.splits)

lemma resolves_updateQuantity:
  "is_array (items s) \<Longrightarrow> resolves (cart_run (updateQuantity auth api a q) s)"
  by (cases auth; cases "q \<le> 0")
     (auto simp: resolves_def is_array_def updateQuantity_def removeFromCart_def
        remove_updater_def quantity_updater_def cart_defs monad_defs items_commit load_never_fails
        split: prod.splits sum.splits json.splits)

lemma resolves_cart_lookups:
  "is_array (items s) \<Longrightarrow> resolves (cart_run (isInCart a) s)"
  "is_array (items s) \<Longrightarrow> resolves (cart_run getTotalItems s)"
  "is_array (items s) \<Longrightarrow> resolves (cart_run getTotalPrice s)"
  by (auto simp: resolves_def is_array_def cart_run_def isInCart_def getTotalItems_def
      getTotalPrice_def monad_defs split: json.splits)

lemma resolves_loadWishlist: "resolves (wishlist_run auth (loadWishlist auth api) t)"
  by (simp add: wishlist_run_def resolves_run resolves_load)

lemma resolves_clearWishlist: "resolves (wishlist_run auth (clearWishlist auth api) t)"
  by (simp add: wishlist_run_def resolves_run clearWishlist_def resolves_try_catch resolves_setItems)
     (simp add: resolves_def monad_defs)

lemma resolves_addToWishlist:
  "is_array (items t) \<Longrightarrow> resolves (wishlist_run auth (addToWishlist auth api p) t)"
  by (cases auth)
     (auto simp: resolves_def is_array_def addToWishlist_def wish_updater_def wishlist_defs
        monad_defs items_commit load_never_fails split: prod.splits sum.splits json.splits)

lemma resolves_removeFromWishlist:
  "is_array (items t) \<Longrightarrow> resolves (wishlist_run auth (removeFromWishlist auth api a) t)"
  by (cases auth)
     (auto simp: resolves_def is_array_def removeFromWishlist_def unwish_updater_def wishlist_defs
        monad_defs items_commit load_never_fails split: prod.splits sum.splits json.splits)

lemma resolves_isInWishlist:
  "is_array (items t) \<Longrightarrow> resolves (wishlist_run auth (isInWishlist a) t)"
  by (auto simp: resolves_def is_array_def wishlist_run_def isInWishlist_def monad_defs
      split: json.splits)

lemma resolves_toggleWishlist:
  assumes "is_array (items t)"
  shows "resolves (wishlist_run auth (toggleWishlist auth api p) t)"
proof -
  from assms obtain xs where xs: "items t = JArray xs"
    by (cases "items t") (simp_all add: is_array_def)
  then have "toggleWishlist auth api p t =
      (if list_ex (\<lambda>item. id' item = id' p) xs then removeFromWishlist auth api (id' p) t
       else addToWishlist auth api p t)"
    by (simp add: toggleWishlist_def isInWishlist_def bind_x_def get_items_def as_array_def unit_x_def)
  with resolves_addToWishlist[OF assms, of auth api p]
    resolves_removeFromWishlist[OF assms, of auth api "id' p"]
  show ?thesis
    by (simp add: wishlist_run_def resolves_run)
qed

lemmas intact_defs = intact_def is_array_def

lemma committed_cart:
  "items (commit cart_effect u) = items u"
  "storage (commit cart_effect u) = (if dirty u then Some (Json (items u)) else storage u)"
  "remote (commit cart_effect u) = remote u"
  by (simp_all add: commit_cart)

lemma intact_commit:
  "intact u \<Longrightarrow> intact (commit cart_effect u)"
  "intact t \<Longrightarrow> intact (commit (wishlist_effect auth) t)"
  by (auto simp: intact_defs commit_cart commit_wishlist split: json.splits)

lemma intact_loaded:
  "loadCart auth api u = (res, u') \<Longrightarrow> intact u \<Longrightarrow> intact u'"
  "loadWishlist auth wapi t = (res, t') \<Longrightarrow> intact t \<Longrightarrow> intact t'"
  by (cases auth;
      auto simp: intact_defs commit_cart commit_wishlist load_forms Let_def
        split: prod.splits sum.splits option.splits stored.splits json.splits if_splits)+

lemma intact_updated:
  "setItemsBy f u = (res, u') \<Longrightarrow> intact u \<Longrightarrow> intact u'"
  by (auto simp: intact_defs setItemsBy_def monad_defs
      split: option.splits json.splits)

lemma intact_remote: "intact (u\<lparr>remote := r\<rparr>) = intact u"
  by (simp add: intact_def)

lemma intact_cleared: "intact (u\<lparr>items := JArray [], dirty := True, storage := None\<rparr>)"
  "intact u \<Longrightarrow> intact (u\<lparr>items := JArray [], dirty := True\<rparr>)"
  by (simp_all add: intact_defs)

lemmas handler_defs = unit_x_def skip_def throw_def bind_x_def seq_x_def try_catch_def
  get_items_def as_array_def length_positive_def localStorage_getItem_def truthy_def
  JSON_parse_def request_def await_x_def run_def

lemma intact_loadCart: "intact s \<Longrightarrow> intact (snd (cart_run (loadCart auth api) s))"
  by (cases "loadCart auth api s") (auto simp: cart_run_def run_def intact_commit dest: intact_loaded)

lemma intact_addToCart: "intact s \<Longrightarrow> intact (snd (cart_run (addToCart auth api p q) s))"
  by (cases auth)
     (auto simp: addToCart_def cart_run_def cart_await_def handler_defs intact_commit intact_remote
        load_never_fails dest: intact_loaded intact_updated
        split: prod.splits sum.splits option.splits json.splits)

lemma intact_removeFromCart: "intact s \<Longrightarrow> intact (snd (cart_run (removeFromCart auth api a) s))"
  by (cases auth)
     (auto simp: removeFromCart_def cart_run_def cart_await_def handler_defs intact_commit
        intact_remote load_never_fails dest: intact_loaded intact_updated
        split: prod.splits sum.splits)

lemma intact_updateQuantity:
  "intact s \<Longrightarrow> intact (snd (cart_run (updateQuantity auth api a q) s))"
  by (cases auth; cases "q \<le> 0")
     (auto simp: updateQuantity_def removeFromCart_def cart_run_def cart_await_def handler_defs
        intact_commit intact_remote load_never_fails dest: intact_loaded intact_updated
        split: prod.splits sum.splits)

lemma intact_clearCart: "intact (snd (cart_run (clearCart auth api) s))"
  by (cases auth)
     (auto simp: intact_defs clearCart_def cart_defs monad_defs commit_cart
        split: prod.splits sum.splits)

lemma intact_syncCart: "intact s \<Longrightarrow> intact (snd (cart_run (syncCart auth api) s))"
  by (cases auth)
     (auto simp: syncCart_def cart_run_def cart_await_def handler_defs intact_commit intact_remote
        load_never_fails dest: intact_loaded
        split: prod.splits sum.splits option.splits stored.splits json.splits if_splits)

lemma intact_loadWishlist:
  "intact t \<Longrightarrow> intact (snd (wishlist_run auth (loadWishlist auth api) t))"
  by (cases "loadWishlist auth api t")
     (auto simp: wishlist_run_def run_def intact_commit dest: intact_loaded)

lemma intact_addToWishlist:
  "intact t \<Longrightarrow> intact (snd (wishlist_run auth (addToWishlist auth api p) t))"
  by (cases auth)
     (auto simp: addToWishlist_def wishlist_run_def wishlist_await_def handler_defs intact_commit
        intact_remote load_never_fails dest: intact_loaded intact_updated
        split: prod.splits sum.splits)

lemma intact_removeFromWishlist:
  "intact t \<Longrightarrow> intact (snd (wishlist_run auth (removeFromWishlist auth api a) t))"
  by (cases auth)
     (auto simp: removeFromWishlist_def wishlist_run_def wishlist_await_def handler_defs
        intact_commit intact_remote load_never_fails dest: intact_loaded intact_updated
        split: prod.splits sum.splits)

lemma intact_clearWishlist:
  "intact t \<Longrightarrow> intact (snd (wishlist_run auth (clearWishlist auth api) t))"
  by (cases auth)
     (auto simp: intact_defs clearWishlist_def wishlist_defs monad_defs commit_wishlist
        split: prod.splits sum.splits option.splits stored.splits json.splits)

lemma toggle_on_array:
  "items t = JArray xs \<Longrightarrow>
   toggleWishlist auth api p t =
     (if list_ex (\<lambda>item. id' item = id' p) xs then removeFromWishlist auth api (id' p) t
      else addToWishlist auth api p t)"
  by (simp add: toggleWishlist_def isInWishlist_def bind_x_def get_items_def as_array_def unit_x_def)

lemma intact_toggleWishlist:
  assumes "intact t"
  shows "intact (snd (wishlist_run auth (toggleWishlist auth api p) t))"
proof -
  from assms obtain xs where xs: "items t = JArray xs"
    by (cases "items t") (simp_all add: intact_defs)
  with intact_addToWishlist[OF assms, of auth api p]
    intact_removeFromWishlist[OF assms, of auth api "id' p"]
  show ?thesis
    by (simp add: wishlist_run_def run_def toggle_on_array)
qed

lemma garbled_loadCart:
  "items (snd (cart_run (loadCart auth api) (s\<lparr>storage := Some Garbled\<rparr>)))
     = items (snd (cart_run (loadCart auth api) (s\<lparr>storage := Some (Json (JArray []))\<rparr>)))"
  by (cases auth)
     (auto simp: cart_run_def run_def commit_cart load_forms Let_def split: prod.splits sum.splits)

lemma garbled_loadWishlist:
  "items (snd (wishlist_run auth (loadWishlist auth api) (t\<lparr>storage := Some Garbled\<rparr>)))
     = items (snd (wishlist_run auth (loadWishlist auth api) (t\<lparr>storage := Some (Json (JArray []))\<rparr>)))"
  by (cases auth)
     (auto simp: wishlist_run_def run_def commit_wishlist load_forms Let_def
        split: prod.splits sum.splits)

lemma garbled_syncCart:
  "items (snd (cart_run (syncCart auth api) (s\<lparr>storage := Some Garbled\<rparr>)))
     = items (snd (cart_run (syncCart auth api) (s\<lparr>storage := Some (Json (JArray []))\<rparr>)))"
  by (cases auth)
     (auto simp: cart_run_def syncCart_def monad_defs commit_cart Let_def
        split: prod.splits sum.splits)

text \<open>
  C8, as stated, fails: a slot that parses to something that is not an array is stored as
  the snapshot. With \<^verbatim>\<open>null\<close> in the slot of the cart, the mount resolves with the snapshot
  \<^verbatim>\<open>null\<close>, after which \<^verbatim>\<open>getTotalItems\<close>, \<^verbatim>\<open>isInCart\<close> and \<^verbatim>\<open>addToCart\<close> throw
  \<^verbatim>\<open>TypeError\<close>; with \<^verbatim>\<open>{}\<close> in the slot of the wishlist, \<^verbatim>\<open>isInWishlist\<close> throws.
\<close>

theorem null_slot_breaks_lookups:
  "cart_mount backend_cart (Some (Json JNull)) (shop True)
     = (False, \<lparr>items = JNull, loading = False, storage = Some (Json JNull), dirty = False,
                remote = shop True\<rparr>)
   \<and> cart_run getTotalItems (snd (cart_mount backend_cart (Some (Json JNull)) (shop True)))
     = (Inl TypeError, snd (cart_mount backend_cart (Some (Json JNull)) (shop True)))
   \<and> \<not> resolves (cart_run getTotalItems
                    (snd (cart_mount backend_cart (Some (Json JNull)) (shop True))))
   \<and> \<not> resolves (cart_run (isInCart ''A'')
                    (snd (cart_mount backend_cart (Some (Json JNull)) (shop True))))
   \<and> \<not> resolves (cart_run (addToCart False backend_cart productA 1)
                    (snd (cart_mount backend_cart (Some (Json JNull)) (shop True))))
   \<and> \<not> resolves (wishlist_run False (isInWishlist ''A'')
                    (snd (wishlist_run False (loadWishlist False backend_wishlist)
                            ((at_rest [] (shop True))\<lparr>storage := Some (Json JOther)\<rparr>))))"
  by (simp add: cart_mount_def resolves_def getTotalItems_def isInCart_def isInWishlist_def
      addToCart_def cart_defs wishlist_defs monad_defs commit_cart commit_wishlist load_forms
      backend_defs)

text \<open>
  C8, amended: \<^verbatim>\<open>loadCart\<close>, \<^verbatim>\<open>clearCart\<close>, \<^verbatim>\<open>syncCart\<close>, \<^verbatim>\<open>loadWishlist\<close> and
  \<^verbatim>\<open>clearWishlist\<close> never throw, for every state, slot and backend. The mutations and the
  lookups never throw while the snapshot is an array. A provider whose snapshot is an
  array and whose slot is absent, empty, unparseable or the serialization of an array
  stays so under every handler, whatever the backend answers. A slot that does not parse
  gives the handlers that read it the snapshot an empty list in the slot gives. Writes to
  the slot are taken to succeed.
\<close>

theorem handlers_never_throw:
  "resolves (cart_run (loadCart auth capi) s)
   \<and> resolves (cart_run (clearCart auth capi) s)
   \<and> resolves (cart_run (syncCart auth capi) s)
   \<and> resolves (wishlist_run auth (loadWishlist auth wapi) t)
   \<and> resolves (wishlist_run auth (clearWishlist auth wapi) t)
   \<and> (is_array (items s) \<longrightarrow>
        resolves (cart_run (addToCart auth capi p q) s)
        \<and> resolves (cart_run (removeFromCart auth capi a) s)
        \<and> resolves (cart_run (updateQuantity auth capi a q) s)
        \<and> resolves (cart_run (isInCart a) s)
        \<and> resolves (cart_run getTotalItems s)
        \<and> resolves (cart_run getTotalPrice s))
   \<and> (is_array (items t) \<longrightarrow>
        resolves (wishlist_run auth (addToWishlist auth wapi p) t)
        \<and> resolves (wishlist_run auth (removeFromWishlist auth wapi a) t)
        \<and> resolves (wishlist_run auth (isInWishlist a) t)
        \<and> resolves (wishlist_run auth (toggleWishlist auth wapi p) t))
   \<and> (intact s \<longrightarrow>
        intact (snd (cart_run (loadCart auth capi) s))
        \<and> intact (snd (cart_run (addToCart auth capi p q) s))
        \<and> intact (snd (cart_run (removeFromCart auth capi a) s))
        \<and> intact (snd (cart_run (updateQuantity auth capi a q) s))
        \<and> intact (snd (cart_run (clearCart auth capi) s))
        \<and> intact (snd (cart_run (syncCart auth capi) s)))
   \<and> (intact t \<longrightarrow>
        intact (snd (wishlist_run auth (loadWishlist auth wapi) t))
        \<and> intact (snd (wishlist_run auth (addToWishlist auth wapi p) t))
        \<and> intact (snd (wishlist_run auth (removeFromWishlist auth wapi a) t))
        \<and> intact (snd (wishlist_run auth (clearWishlist auth wapi) t))
        \<and> intact (snd (wishlist_run auth (toggleWishlist auth wapi p) t)))
   \<and> items (snd (cart_run (loadCart auth capi) (s\<lparr>storage := Some Garbled\<rparr>)))
       = items (snd (cart_run (loadCart auth capi) (s\<lparr>storage := Some (Json (JArray []))\<rparr>)))
   \<and> items (snd (cart_run (syncCart auth capi) (s\<lparr>storage := Some Garbled\<rparr>)))
       = items (snd (cart_run (syncCart auth capi) (s\<lparr>storage := Some (Json (JArray []))\<rparr>)))
   \<and> items (snd (wishlist_run auth (loadWishlist auth wapi) (t\<lparr>storage := Some Garbled\<rparr>)))
       = items (snd (wishlist_run auth (loadWishlist auth wapi)
                       (t\<lparr>storage := Some (Json (JArray []))\<rparr>)))"
  using garbled_loadCart[of auth capi s] garbled_syncCart[of auth capi s]
    garbled_loadWishlist[of auth wapi t]
  by (simp add: resolves_loadCart resolves_addToCart resolves_removeFromCart
      resolves_updateQuantity resolves_clearCart resolves_syncCart resolves_cart_lookups
      resolves_loadWishlist resolves_addToWishlist resolves_removeFromWishlist
      resolves_clearWishlist resolves_isInWishlist resolves_toggleWishlist
      intact_loadCart intact_addToCart intact_removeFromCart intact_updateQuantity
      intact_clearCart intact_syncCart intact_loadWishlist intact_addToWishlist
      intact_removeFromWishlist intact_clearWishlist intact_toggleWishlist)

theorem handlers_never_throw_witness:
  "is_array (items (at_rest [\<lparr>product = productA, quantity = 1\<rparr>] (shop False)))
   \<and> intact (at_rest [\<lparr>product = productA, quantity = 1\<rparr>] (shop False))
   \<and> is_array (items (at_rest [productB] (shop False)))
   \<and> intact (at_rest [productB] (shop False))
   \<and> resolves (cart_run (addToCart True backend_cart productA 2)
        (at_rest [\<lparr>product = productA, quantity = 1\<rparr>] (shop False)))
   \<and> items (snd (cart_run (addToCart True backend_cart productA 2)
        (at_rest [\<lparr>product = productA, quantity = 1\<rparr>] (shop False))))
       = JArray [\<lparr>product = productA, quantity = 3\<rparr>]
   \<and> resolves (cart_run getTotalItems (at_rest [\<lparr>product = productA, quantity = 1\<rparr>] (shop False)))
   \<and> intact (snd (cart_run (addToCart True backend_cart productA 2)
        (at_rest [\<lparr>product = productA, quantity = 1\<rparr>] (shop False))))
   \<and> resolves (wishlist_run True (toggleWishlist True backend_wishlist productA)
        (at_rest [productB] (shop False)))
   \<and> items (snd (wishlist_run True (toggleWishlist True backend_wishlist productA)
        (at_rest [productB] (shop False))))
       = JArray [productB, productA]
   \<and> intact (snd (wishlist_run True (toggleWishlist True backend_wishlist productA)
        (at_rest [productB] (shop False))))"
  using handlers_never_throw
    [where auth = True and capi = backend_cart and wapi = backend_wishlist
       and s = "at_rest [\<lparr>product = productA, quantity = 1\<rparr>] (shop False)"
       and t = "at_rest [productB] (shop False)" and p = productA and q = 2 and a = "''A''"]
  by (simp add: is_array_def intact_def at_rest_def JSON_stringify_def)
     (simp add: addToCart_def add_updater_def toggleWishlist_def isInWishlist_def
        addToWishlist_def wish_updater_def cart_defs wishlist_defs monad_defs commit_cart
        commit_wishlist backend_defs)

section \<open>The slot of the cart mirrors the snapshot\<close>

text \<open>The invariant between renders: the slot will mirror the snapshot once the pending
  persist effect has run.\<close>

lemma due_commit:
  "mirrored (commit cart_effect u) = (dirty u \<or> storage u = Some (Json (items u)))"
  by (auto simp: mirrored_def commit_cart JSON_stringify_def)

lemma due_loaded:
  "loadCart auth api u = (res, u') \<Longrightarrow> mirrored (commit cart_effect u) \<Longrightarrow>
   mirrored (commit cart_effect u')"
  unfolding due_commit
  by (cases auth)
     (auto simp: commit_cart load_forms Let_def
        split: prod.splits sum.splits option.splits stored.splits if_splits)

lemma due_updated:
  "setItemsBy f u = (res, u') \<Longrightarrow> mirrored (commit cart_effect u) \<Longrightarrow>
   mirrored (commit cart_effect u')"
  unfolding due_commit
  by (auto simp: setItemsBy_def monad_defs split: option.splits json.splits)

lemma due_steps:
  "mirrored (commit cart_effect (commit cart_effect u)) = mirrored (commit cart_effect u)"
  "mirrored (commit cart_effect (u\<lparr>remote := r\<rparr>)) = mirrored (commit cart_effect u)"
  "mirrored u \<Longrightarrow> mirrored (commit cart_effect u)"
  unfolding due_commit by (auto simp: commit_cart mirrored_def JSON_stringify_def)

lemma load_mirrored:
  "mirrored (commit cart_effect s) \<Longrightarrow> mirrored (snd (cart_run (loadCart auth api) s))"
  by (cases "loadCart auth api s") (auto simp: cart_run_def run_def dest: due_loaded)

lemma add_mirrored:
  "mirrored (commit cart_effect s) \<Longrightarrow> mirrored (snd (cart_run (addToCart auth api p q) s))"
  by (cases auth)
     (auto simp: addToCart_def cart_run_def cart_await_def handler_defs due_steps
        load_never_fails dest: due_loaded due_updated
        split: prod.splits sum.splits option.splits json.splits)

lemma remove_mirrored:
  "mirrored (commit cart_effect s) \<Longrightarrow> mirrored (snd (cart_run (removeFromCart auth api a) s))"
  by (cases auth)
     (auto simp: removeFromCart_def cart_run_def cart_await_def handler_defs due_steps
        load_never_fails dest: due_loaded due_updated split: prod.splits sum.splits)

lemma update_mirrored:
  "mirrored (commit cart_effect s) \<Longrightarrow>
   mirrored (snd (cart_run (updateQuantity auth api a q) s))"
  by (cases auth; cases "q \<le> 0")
     (auto simp: updateQuantity_def removeFromCart_def cart_run_def cart_await_def handler_defs
        due_steps load_never_fails dest: due_loaded due_updated split: prod.splits sum.splits)

lemma clear_mirrored: "mirrored (snd (cart_run (clearCart auth api) s))"
  by (cases auth)
     (auto simp: mirrored_def clearCart_def cart_defs monad_defs commit_cart Let_def
        split: prod.splits sum.splits)

lemma sync_mirrored:
  "mirrored (commit cart_effect s) \<Longrightarrow> mirrored (snd (cart_run (syncCart auth api) s))"
  by (cases auth)
     (auto simp: syncCart_def cart_run_def cart_await_def handler_defs due_steps
        load_never_fails dest: due_loaded
        split: prod.splits sum.splits option.splits stored.splits json.splits if_splits)

lemma step_mirrored: "mirrored s \<Longrightarrow> mirrored (snd (cart_step api (auth, s) ev))"
  by (cases ev)
     (simp_all add: load_mirrored add_mirrored remove_mirrored update_mirrored clear_mirrored
        sync_mirrored due_steps)

lemma session_mirrored: "mirrored (snd st) \<Longrightarrow> mirrored (snd (cart_session api evs st))"
proof (induction evs arbitrary: st)
  case Nil
  then show ?case by (simp add: cart_session_def)
next
  case (Cons ev evs)
  obtain auth s where st: "st = (auth, s)" by (cases st)
  with Cons.prems have "mirrored (snd (cart_step api st ev))"
    by (simp add: step_mirrored)
  then have "mirrored (snd (cart_session api evs (cart_step api st ev)))"
    by (rule Cons.IH)
  then show ?case by (simp add: cart_session_def)
qed

lemma mount_mirrored: "mirrored (snd (cart_mount api slot r))"
  by (auto simp: cart_mount_def mirrored_def cart_run_def run_def commit_cart load_forms
      JSON_stringify_def split: option.splits stored.splits)

text \<open>
  C9. From the mount on, after every login, logout and handler of the cart, with or
  without a user and whatever the backend answers (so also after a fallback mutation), the
  slot of the cart holds the serialization of the snapshot: the persist effect runs on
  every change of \<^verbatim>\<open>items\<close>. This holds for every content of the slot before the mount.
\<close>

theorem cart_slot_mirrors_snapshot:
  "mirrored (snd (cart_session api evs (cart_mount api slot r)))"
  by (rule session_mirrored) (rule mount_mirrored)

section \<open>The slot of the wishlist while a user is logged in\<close>

lemma wishlist_add_fallback:
  "fst (post_wishlist_items api (id' p) (remote t)) = Inl e \<Longrightarrow> e \<noteq> HttpError (Some 409) \<Longrightarrow>
   storage (snd (wishlist_run True (addToWishlist True api p) t)) = storage t
   \<and> loading (snd (wishlist_run True (addToWishlist True api p) t)) = loading t
   \<and> items (snd (wishlist_run True (addToWishlist True api p) t))
       = (case items t of
            JArray xs \<Rightarrow> JArray (if list_ex (\<lambda>item. id' item = id' p) xs then xs else xs @ [p])
          | v \<Rightarrow> v)"
  by (simp add: wishlist_add_falls_back reloads_def split: json.splits)

lemma wishlist_remove_falls_back:
  assumes "fst (delete_wishlist_items api a (remote t)) = Inl e"
  shows "snd (wishlist_run True (removeFromWishlist True api a) t) =
         (case items t of
            JArray xs \<Rightarrow>
              t\<lparr>items := JArray (filter (\<lambda>item. id' item \<noteq> a) xs), dirty := False,
                remote := snd (delete_wishlist_items api a (remote t))\<rparr>
          | _ \<Rightarrow> t\<lparr>dirty := False, remote := snd (delete_wishlist_items api a (remote t))\<rparr>)"
  using assms
  by (cases "delete_wishlist_items api a (remote t)")
     (auto simp: removeFromWishlist_def unwish_updater_def wishlist_defs monad_defs
        commit_wishlist split: json.splits)

lemma wishlist_remove_fallback:
  "fst (delete_wishlist_items api a (remote t)) = Inl e \<Longrightarrow>
   storage (snd (wishlist_run True (removeFromWishlist True api a) t)) = storage t
   \<and> loading (snd (wishlist_run True (removeFromWishlist True api a) t)) = loading t"
  by (simp add: wishlist_remove_falls_back split: json.splits)

lemma wishlist_toggle_cases:
  "wishlist_run True (toggleWishlist True api p) t =
     (case items t of
        JArray xs \<Rightarrow>
          if list_ex (\<lambda>item. id' item = id' p) xs
          then wishlist_run True (removeFromWishlist True api (id' p)) t
          else wishlist_run True (addToWishlist True api p) t
      | _ \<Rightarrow> (Inl TypeError, commit (wishlist_effect True) t))"
  by (simp add: toggleWishlist_def isInWishlist_def wishlist_run_def run_def bind_x_def
      get_items_def as_array_def unit_x_def throw_def split: json.splits)

lemma wishlist_remove_reloads:
  assumes "fst (delete_wishlist_items api a (remote t)) = Inr ()"
  shows "wishlist_run True (removeFromWishlist True api a) t =
         wishlist_run True (loadWishlist True api)
           ((commit (wishlist_effect True) t)
              \<lparr>remote := snd (delete_wishlist_items api a (remote t))\<rparr>)"
proof -
  let ?t1 = "(commit (wishlist_effect True) t)
               \<lparr>remote := snd (delete_wishlist_items api a (remote t))\<rparr>"
  have rem: "remote (commit (wishlist_effect True) t) = remote t"
    by (simp add: commit_wishlist)
  have "removeFromWishlist True api a t = loadWishlist True api ?t1"
    using assms fst_loadWishlist[of True api ?t1]
    by (cases "delete_wishlist_items api a (remote t)"; cases "loadWishlist True api ?t1")
       (auto simp: removeFromWishlist_def wishlist_await_def monad_defs rem)
  then show ?thesis
    by (simp add: wishlist_run_def run_def)
qed

lemma cart_remove_falls_back:
  assumes "fst (delete_cart_items api a (remote s)) = Inl e"
  shows "cart_run (removeFromCart True api a) s =
         (case items s of
            JArray xs \<Rightarrow>
              (Inr (), s\<lparr>items := JArray (filter (\<lambda>item. id' (product item) \<noteq> a) xs),
                         storage := Some (Json (JArray (filter (\<lambda>item. id' (product item) \<noteq> a) xs))),
                         dirty := False, remote := snd (delete_cart_items api a (remote s))\<rparr>)
          | _ \<Rightarrow> (Inl TypeError,
                  (commit cart_effect s)\<lparr>remote := snd (delete_cart_items api a (remote s))\<rparr>))"
  using assms
  by (cases "delete_cart_items api a (remote s)")
     (auto simp: removeFromCart_def remove_updater_def cart_defs monad_defs commit_cart
        split: json.splits)

lemma cart_remove_fallback_mirrored:
  "fst (delete_cart_items api a (remote s)) = Inl e \<Longrightarrow>
   (case items s of
      JArray xs \<Rightarrow> mirrored (snd (cart_run (removeFromCart True api a) s))
    | _ \<Rightarrow> \<not> resolves (cart_run (removeFromCart True api a) s))"
  by (simp add: cart_remove_falls_back mirrored_def resolves_def JSON_stringify_def
      split: json.splits)

text \<open>
  C10. With a user logged in, a wishlist mutation that falls back (the \<^verbatim>\<open>POST\<close> of an add
  rejected with anything but 409, the \<^verbatim>\<open>DELETE\<close> of a remove rejected) changes the snapshot
  and leaves the slot of the wishlist (and the loading flag) as it was; a toggle is the
  remove or the add. When the request is not rejected (or is answered 409) the handler is
  a \<^verbatim>\<open>loadWishlist\<close> from a state with the same slot, so only the load writes it. The cart
  differs: after a rejected \<^verbatim>\<open>DELETE\<close> its slot mirrors the filtered snapshot. (Where the
  snapshot is not an array the updater or the lookup throws and the snapshot stays.)
\<close>

theorem wishlist_fallback_keeps_slot:
  "(fst (post_wishlist_items api (id' p) (remote t)) = Inl e \<and> e \<noteq> HttpError (Some 409) \<longrightarrow>
      storage (snd (wishlist_run True (addToWishlist True api p) t)) = storage t
      \<and> loading (snd (wishlist_run True (addToWishlist True api p) t)) = loading t
      \<and> items (snd (wishlist_run True (addToWishlist True api p) t))
          = (case items t of
               JArray xs \<Rightarrow>
                 JArray (if list_ex (\<lambda>item. id' item = id' p) xs then xs else xs @ [p])
             | v \<Rightarrow> v))
   \<and> (fst (delete_wishlist_items api a (remote t)) = Inl e' \<longrightarrow>
      storage (snd (wishlist_run True (removeFromWishlist True api a) t)) = storage t
      \<and> loading (snd (wishlist_run True (removeFromWishlist True api a) t)) = loading t)
   \<and> wishlist_run True (toggleWishlist True api p) t =
       (case items t of
          JArray xs \<Rightarrow>
            if list_ex (\<lambda>item. id' item = id' p) xs
            then wishlist_run True (removeFromWishlist True api (id' p)) t
            else wishlist_run True (addToWishlist True api p) t
        | _ \<Rightarrow> (Inl TypeError, commit (wishlist_effect True) t))
   \<and> (fst (post_wishlist_items api (id' p) (remote t)) = Inr ()
       \<or> fst (post_wishlist_items api (id' p) (remote t)) = Inl (HttpError (Some 409)) \<longrightarrow>
      wishlist_run True (addToWishlist True api p) t =
      wishlist_run True (loadWishlist True api)
        ((commit (wishlist_effect True) t)
           \<lparr>remote := snd (post_wishlist_items api (id' p) (remote t))\<rparr>))
   \<and> (fst (delete_wishlist_items api a (remote t)) = Inr () \<longrightarrow>
      wishlist_run True (removeFromWishlist True api a) t =
      wishlist_run True (loadWishlist True api)
        ((commit (wishlist_effect True) t)
           \<lparr>remote := snd (delete_wishlist_items api a (remote t))\<rparr>))
   \<and> storage (commit (wishlist_effect True) t) = storage t
   \<and> (fst (delete_cart_items capi a (remote s)) = Inl e'' \<longrightarrow>
      (case items s of
         JArray xs \<Rightarrow> mirrored (snd (cart_run (removeFromCart True capi a) s))
       | _ \<Rightarrow> \<not> resolves (cart_run (removeFromCart True capi a) s)))"
  using wishlist_add_fallback[of api p t e] wishlist_remove_fallback[of api a t e']
    wishlist_toggle_cases[of api p t] wishlist_add_reloads[of api p t]
    wishlist_remove_reloads[of api a t] cart_remove_fallback_mirrored[of capi a s e'']
  by (simp add: commit_wishlist reloads_def)

theorem wishlist_fallback_keeps_slot_witness:
  "fst (post_wishlist_items backend_wishlist (id' productA)
         (remote (at_rest [productB] (shop False)))) = Inl (HttpError None)
   \<and> HttpError None \<noteq> HttpError (Some 409)
   \<and> storage (snd (wishlist_run True (addToWishlist True backend_wishlist productA)
         (at_rest [productB] (shop False)))) = Some (Json (JArray [productB]))
   \<and> items (snd (wishlist_run True (addToWishlist True backend_wishlist productA)
         (at_rest [productB] (shop False)))) = JArray [productB, productA]
   \<and> fst (delete_wishlist_items backend_wishlist ''B''
         (remote (at_rest [productB] (shop False)))) = Inl (HttpError None)
   \<and> storage (snd (wishlist_run True (removeFromWishlist True backend_wishlist ''B'')
         (at_rest [productB] (shop False)))) = Some (Json (JArray [productB]))
   \<and> items (snd (wishlist_run True (removeFromWishlist True backend_wishlist ''B'')
         (at_rest [productB] (shop False)))) = JArray []
   \<and> fst (post_wishlist_items backend_wishlist (id' productA)
         (remote (at_rest [productB] (shop True)))) = Inr ()
   \<and> storage (snd (wishlist_run True (addToWishlist True backend_wishlist productA)
         (at_rest [productB] (shop True)))) = Some (Json (JArray [productA]))
   \<and> fst (delete_wishlist_items backend_wishlist ''B''
         (remote (at_rest [productB] (shop True)))) = Inr ()
   \<and> fst (delete_cart_items backend_cart ''B''
         (remote (at_rest [\<lparr>product = productB, quantity = 1\<rparr>] (shop False)))) = Inl (HttpError None)
   \<and> storage (snd (cart_run (removeFromCart True backend_cart ''B'')
         (at_rest [\<lparr>product = productB, quantity = 1\<rparr>] (shop False)))) = Some (Json (JArray []))"
  using wishlist_fallback_keeps_slot
          [of backend_wishlist productA "at_rest [productB] (shop False)" "HttpError None" "''B''"
              "HttpError None" backend_cart
              "at_rest [\<lparr>product = productB, quantity = 1\<rparr>] (shop False)" "HttpError None"]
        wishlist_fallback_keeps_slot
          [of backend_wishlist productA "at_rest [productB] (shop True)" "HttpError None" "''B''"
              "HttpError None" backend_cart
              "at_rest [\<lparr>product = productB, quantity = 1\<rparr>] (shop False)" "HttpError None"]
  by (simp add: backend_defs mirrored_def wishlist_defs cart_defs monad_defs commit_wishlist
        commit_cart load_forms Let_def addToWishlist_def wish_updater_def removeFromWishlist_def
        unwish_updater_def toggleWishlist_def isInWishlist_def removeFromCart_def
        remove_updater_def)

end
